theory Spec2Isabelle
  imports Complex_Main
begin

section \<open>JavaScript values\<close>

text \<open>
  The application is JavaScript, and two of its operators depend on whether a value is a
  number or a string: \<open>+\<close> adds two numbers but concatenates as soon as one operand is a
  string, and \<open>-\<close>, \<open>/\<close>, \<open>*\<close> first convert a string to a number.  A value that the code
  adds to or divides is therefore a \<open>js_value\<close>, a number or a string; numbers are
  rationals.  The result of an arithmetic operator is a \<open>jsnum\<close>: a finite number, \<open>NaN\<close>
  or an infinity.  Signed zeros and rounding are not modelled.
\<close>

datatype js_value = NumberV rat | StringV string

datatype jsnum = Num rat | NaN | PosInfinity | NegInfinity

text \<open>
  Decimal digits.  \<open>digits10\<close> writes a natural number, \<open>frac_digits\<close> the digits after
  the point by long division, at most as many as its first argument.
\<close>

definition digit_char :: "nat \<Rightarrow> char" where
  "digit_char d = ''0123456789'' ! d"

fun digits10 :: "nat \<Rightarrow> string" where
  "digits10 n = (if n < 10 then [digit_char n] else digits10 (n div 10) @ [digit_char (n mod 10)])"

declare digits10.simps [simp del]

fun frac_digits :: "nat \<Rightarrow> rat \<Rightarrow> string" where
  "frac_digits 0 f = []"
| "frac_digits (Suc k) f =
     (if f = 0 then []
      else digit_char (nat \<lfloor>f * 10\<rfloor>) # frac_digits k (f * 10 - of_int \<lfloor>f * 10\<rfloor>))"

text \<open>
  \<open>Number.prototype.toFixed(2)\<close> returns a string: the sign, then the decimal with two
  fraction digits nearest to the magnitude, the larger one on a tie.  (The exponent form
  that \<open>toFixed\<close> uses from \<open>1e21\<close> on is left out.)
\<close>

definition toFixed2 :: "rat \<Rightarrow> string" where
  "toFixed2 x =
     (let n = nat \<lfloor>\<bar>x\<bar> * 100 + 1 / 2\<rfloor>
      in (if x < 0 then ''-'' else []) @ digits10 (n div 100) @ ''.''
         @ [digit_char (n mod 100 div 10), digit_char (n mod 10)])"

text \<open>
  The string of a number, as \<open>+\<close> builds it before concatenating: the sign, the integer
  part, and the fraction digits when there are any.  It is exact for a number with a
  short decimal expansion, such as an amount in whole cents; the expansion is cut after
  20 fraction digits, and the exponent forms of very large and very small numbers are
  left out.
\<close>

definition number_to_string :: "rat \<Rightarrow> string" where
  "number_to_string r =
     (let a = \<bar>r\<bar>; ip = nat \<lfloor>a\<rfloor>; f = a - of_nat ip
      in (if r < 0 then ''-'' else []) @ digits10 ip
         @ (if f = 0 then [] else ''.'' @ frac_digits 20 f))"

text \<open>
  The number of a string, as \<open>-\<close>, \<open>/\<close> and \<open>*\<close> read it: the empty string is 0; an
  optional sign followed by digits with at most one point, and at least one digit, is
  that decimal; any other text made of digits, points and signs is \<open>NaN\<close>.  (White
  space, exponents, hexadecimal literals and the word \<open>Infinity\<close> are left out; no string
  built below contains them.)
\<close>

definition is_digit :: "char \<Rightarrow> bool" where
  "is_digit c = (c \<in> set ''0123456789'')"

definition digit_val :: "char \<Rightarrow> nat" where
  "digit_val c = length (takeWhile (\<lambda>d. d \<noteq> c) ''0123456789'')"

definition digits_value :: "string \<Rightarrow> nat" where
  "digits_value s = foldl (\<lambda>a c. 10 * a + digit_val c) 0 s"

definition unsigned_to_number :: "string \<Rightarrow> jsnum" where
  "unsigned_to_number s =
     (let ip = takeWhile is_digit s; rest = dropWhile is_digit s
      in if rest = [] then (if ip = [] then NaN else Num (of_nat (digits_value ip)))
         else if hd rest = CHR ''.'' \<and> list_all is_digit (tl rest)
                 \<and> (ip \<noteq> [] \<or> tl rest \<noteq> [])
         then Num (of_nat (digits_value ip)
                   + of_nat (digits_value (tl rest)) / 10 ^ length (tl rest))
         else NaN)"

fun js_negate :: "jsnum \<Rightarrow> jsnum" where
  "js_negate (Num a) = Num (- a)"
| "js_negate NaN = NaN"
| "js_negate PosInfinity = NegInfinity"
| "js_negate NegInfinity = PosInfinity"

definition string_to_number :: "string \<Rightarrow> jsnum" where
  "string_to_number s =
     (case s of
        [] \<Rightarrow> Num 0
      | c # rest \<Rightarrow>
          if c = CHR ''-'' then js_negate (unsigned_to_number rest)
          else if c = CHR ''+'' then unsigned_to_number rest
          else unsigned_to_number s)"

fun to_text :: "js_value \<Rightarrow> string" where
  "to_text (NumberV r) = number_to_string r"
| "to_text (StringV s) = s"

fun to_number :: "js_value \<Rightarrow> jsnum" where
  "to_number (NumberV r) = Num r"
| "to_number (StringV s) = string_to_number s"

text \<open>
  The operators.  \<open>js_plus\<close> is \<open>a + b\<close>; \<open>js_minus\<close> and \<open>js_divide\<close> are \<open>a - b\<close> and
  \<open>a / b\<close> on the numbers of their operands; \<open>js_times\<close> multiplies by a positive
  finite factor; the comparisons are false on \<open>NaN\<close>; \<open>truthy\<close> is what \<open>||\<close> tests.
\<close>

fun js_plus :: "js_value \<Rightarrow> js_value \<Rightarrow> js_value" where
  "js_plus (NumberV a) (NumberV b) = NumberV (a + b)"
| "js_plus a b = StringV (to_text a @ to_text b)"

fun js_minus :: "jsnum \<Rightarrow> jsnum \<Rightarrow> jsnum" where
  "js_minus (Num a) (Num b) = Num (a - b)"
| "js_minus (Num a) PosInfinity = NegInfinity"
| "js_minus (Num a) NegInfinity = PosInfinity"
| "js_minus PosInfinity (Num b) = PosInfinity"
| "js_minus PosInfinity NegInfinity = PosInfinity"
| "js_minus NegInfinity (Num b) = NegInfinity"
| "js_minus NegInfinity PosInfinity = NegInfinity"
| "js_minus a b = NaN"

fun js_divide :: "jsnum \<Rightarrow> jsnum \<Rightarrow> jsnum" where
  "js_divide (Num a) (Num b) =
     (if b \<noteq> 0 then Num (a / b)
      else if a = 0 then NaN
      else if a > 0 then PosInfinity else NegInfinity)"
| "js_divide (Num a) PosInfinity = Num 0"
| "js_divide (Num a) NegInfinity = Num 0"
| "js_divide PosInfinity (Num b) = (if b < 0 then NegInfinity else PosInfinity)"
| "js_divide NegInfinity (Num b) = (if b < 0 then PosInfinity else NegInfinity)"
| "js_divide a b = NaN"

fun js_times :: "jsnum \<Rightarrow> rat \<Rightarrow> jsnum" where
  "js_times (Num a) c = Num (a * c)"
| "js_times NaN c = NaN"
| "js_times PosInfinity c = PosInfinity"
| "js_times NegInfinity c = NegInfinity"

fun js_greater :: "jsnum \<Rightarrow> rat \<Rightarrow> bool" where
  "js_greater (Num a) c = (a > c)"
| "js_greater NaN c = False"
| "js_greater PosInfinity c = True"
| "js_greater NegInfinity c = False"

fun js_less :: "jsnum \<Rightarrow> rat \<Rightarrow> bool" where
  "js_less (Num a) c = (a < c)"
| "js_less NaN c = False"
| "js_less PosInfinity c = False"
| "js_less NegInfinity c = True"

fun truthy :: "js_value \<Rightarrow> bool" where
  "truthy (NumberV r) = (r \<noteq> 0)"
| "truthy (StringV s) = (s \<noteq> [])"

section \<open>Data model\<close>

text \<open>
  The pages of the point-of-sale application share one \<open>Order\<close> shape, declared in
  \<open>src/pages/orders.tsx\<close> (lines 26-48) and \<open>src/pages/reports.tsx\<close> (lines 62-77) and
  built in \<open>src/pages/pos.tsx\<close> (\<open>confirmOrder\<close>).  Prices and seconds are rationals
  (\<open>rat\<close>), counts integers.  The \<open>total\<close> of an order is a \<open>js_value\<close>: the interfaces
  declare it a number, and \<open>pos.tsx\<close> stores the string that \<open>toFixed(2)\<close> returns.  A date
  string or \<open>Date\<close> object is modelled by the instant it denotes, in milliseconds
  (\<open>getTime()\<close>); an optional field is an \<open>option\<close>.  The item record is the union of the
  item fields the three files declare (\<open>flavor\<close> is \<open>null\<close> or a flavour name in the cart of
  \<open>pos.tsx\<close>); the contact fields of an order, which no handler reads, are left out.
  \<open>id\<close> and \<open>notes\<close> are named \<open>id_num\<close> and \<open>notes_opt\<close>.
\<close>

record order_item =
  item_id :: int
  name :: string
  quantity :: int
  price :: rat
  category :: string
  flavor :: "string option"

record order =
  id_num :: int
  customerName :: string
  status :: string
  timestamp :: int
  items :: "order_item list"
  total :: js_value
  isComplimentary :: bool
  queueTime :: rat
  preparationTime :: "rat option"
  leadInterest :: "bool option"
  startTime :: "int option"
  notes_opt :: "string option"

text \<open>
  State of the \<open>ActiveOrders\<close> component (\<open>src/pages/orders.tsx\<close> lines 60-98 and its
  sibling in \<open>src/unnamed/part_001\<close> lines 1058-1070).  \<open>orders\<close> is the active list,
  \<open>allOrders\<close> the historical list kept in memory, \<open>orders_slot\<close> the value last written to
  the \<open>'orders'\<close> key of local storage.  The displayed list \<open>filteredOrders\<close> is recomputed
  by an effect from the other fields (\<open>filterAndSortOrders\<close> below).
\<close>

record orders_page =
  orders :: "order list"
  allOrders :: "order list"
  statusFilter :: string
  sortCriteria :: string
  sortDirection :: string
  selectedOrder :: "order option"
  editedItems :: "order_item list"
  orderNotes :: string
  orders_slot :: "order list"

text \<open>The exceptions the modelled code can throw; a function that can throw returns a sum.\<close>

datatype js_error = RangeError | TypeError

section \<open>Order lifecycle (orders page)\<close>

text \<open>
  \<open>updateOrderStatus\<close>, \<open>orders.tsx\<close> lines 242-261 (and \<open>part_001\<close> lines 1121-1139).
  \<open>now\<close> is the reading of \<open>new Date()\<close> taken inside the handler.  The first function is
  the callback given to \<open>orders.map\<close>.
\<close>

definition updateOrderStatus_order :: "int \<Rightarrow> int \<Rightarrow> string \<Rightarrow> order \<Rightarrow> order" where
  "updateOrderStatus_order now orderId newStatus ord =
     (if id_num ord = orderId then
        (let updatedOrder = ord\<lparr>status := newStatus\<rparr> in
         if newStatus = ''Completed'' \<and> startTime ord \<noteq> None
         then updatedOrder\<lparr>preparationTime :=
                Some (of_int (now - the (startTime ord)) / 1000)\<rparr>
         else updatedOrder)
      else ord)"

definition updateOrderStatus :: "int \<Rightarrow> int \<Rightarrow> string \<Rightarrow> orders_page \<Rightarrow> orders_page" where
  "updateOrderStatus now orderId newStatus st =
     (let updatedOrders = map (updateOrderStatus_order now orderId newStatus) (orders st)
      in st\<lparr>orders := updatedOrders, allOrders := updatedOrders, orders_slot := updatedOrders\<rparr>)"

text \<open>
  \<open>cancelOrder\<close>, \<open>orders.tsx\<close> lines 276-287.  \<open>confirmed\<close> is the answer of
  \<open>window.confirm\<close>.
\<close>

definition cancelOrder :: "bool \<Rightarrow> int \<Rightarrow> orders_page \<Rightarrow> orders_page" where
  "cancelOrder confirmed orderId st =
     (if confirmed then
        (let updatedOrders = filter (\<lambda>ord. id_num ord \<noteq> orderId) (orders st);
             updatedAllOrders =
               map (\<lambda>ord. if id_num ord = orderId then ord\<lparr>status := ''Cancelled''\<rparr> else ord)
                 (allOrders st)
         in st\<lparr>orders := updatedOrders, allOrders := updatedAllOrders,
                orders_slot := updatedOrders\<rparr>)
      else st)"

text \<open>
  The cancel button of an order card, \<open>orders.tsx\<close> lines 728-757: the action row is
  rendered only while \<open>order.status !== 'Completed'\<close>, and the button carries
  \<open>disabled={order.status !== 'Pending'}\<close>; a disabled or absent button dispatches no
  click.
\<close>

definition cancel_button_disabled :: "order \<Rightarrow> bool" where
  "cancel_button_disabled ord = (status ord \<noteq> ''Pending'')"

definition click_cancel_button :: "bool \<Rightarrow> order \<Rightarrow> orders_page \<Rightarrow> orders_page" where
  "click_cancel_button confirmed ord st =
     (if status ord \<noteq> ''Completed'' \<and> \<not> cancel_button_disabled ord
      then cancelOrder confirmed (id_num ord) st
      else st)"

section \<open>Bulk clearing (orders page)\<close>


section \<open>Editing an order (orders page)\<close>

text \<open>\<open>calculateTotal\<close>, \<open>orders.tsx\<close> lines 208-210: a left-to-right \<open>reduce\<close> from 0.\<close>

definition calculateTotal :: "order_item list \<Rightarrow> rat" where
  "calculateTotal its = foldl (\<lambda>sum item. sum + price item * of_int (quantity item)) 0 its"

text \<open>
  \<open>updateOrderItem\<close>, \<open>orders.tsx\<close> lines 213-231.  The \<open>Partial<OrderItem>\<close> argument holds
  the fields to overwrite; the edit form passes a name, a quantity or a price.  The
  handler rewrites the items of \<open>selectedOrder\<close> and its total; it does not read its first
  argument and does not touch \<open>editedItems\<close>.
\<close>

record item_updates =
  upd_name :: "string option"
  upd_quantity :: "int option"
  upd_price :: "rat option"

definition apply_updates :: "order_item \<Rightarrow> item_updates \<Rightarrow> order_item" where
  "apply_updates item updates =
     item\<lparr>name := (case upd_name updates of Some n \<Rightarrow> n | None \<Rightarrow> name item),
          quantity := (case upd_quantity updates of Some q \<Rightarrow> q | None \<Rightarrow> quantity item),
          price := (case upd_price updates of Some p \<Rightarrow> p | None \<Rightarrow> price item)\<rparr>"

definition updateOrderItem :: "int \<Rightarrow> int \<Rightarrow> item_updates \<Rightarrow> orders_page \<Rightarrow> orders_page" where
  "updateOrderItem orderId itemId updates st =
     (case selectedOrder st of
        None \<Rightarrow> st
      | Some sel \<Rightarrow>
          (let updatedItems =
                 map (\<lambda>item. if item_id item = itemId then apply_updates item updates else item)
                   (items sel);
               newTotal = calculateTotal updatedItems
           in st\<lparr>selectedOrder := Some (sel\<lparr>items := updatedItems, total := NumberV newTotal\<rparr>)\<rparr>))"

text \<open>\<open>modifyOrder\<close>, \<open>orders.tsx\<close> lines 290-299; \<open>notes || ''\<close> reads a missing note as empty.\<close>

definition modifyOrder :: "int \<Rightarrow> orders_page \<Rightarrow> orders_page" where
  "modifyOrder orderId st =
     (case find (\<lambda>ord. id_num ord = orderId) (orders st) of
        Some orderToModify \<Rightarrow>
          st\<lparr>selectedOrder := Some orderToModify,
             editedItems := items orderToModify,
             orderNotes := (case notes_opt orderToModify of Some n \<Rightarrow> n | None \<Rightarrow> [])\<rparr>
      | None \<Rightarrow> st)"

text \<open>
  The remove button of the edit form, \<open>orders.tsx\<close> lines 873-879:
  \<open>setEditedItems(prev => prev.filter((_, i) => i !== index))\<close>.
\<close>

definition removeEditedItem :: "nat \<Rightarrow> orders_page \<Rightarrow> orders_page" where
  "removeEditedItem index st =
     st\<lparr>editedItems :=
          map snd (filter (\<lambda>p. fst p \<noteq> index) (enumerate 0 (editedItems st)))\<rparr>"

text \<open>\<open>saveModifiedOrder\<close>, \<open>orders.tsx\<close> lines 302-323.\<close>

definition saveModifiedOrder :: "orders_page \<Rightarrow> orders_page" where
  "saveModifiedOrder st =
     (case selectedOrder st of
        None \<Rightarrow> st
      | Some sel \<Rightarrow>
          (let modifiedOrder =
                 sel\<lparr>items := editedItems st,
                     notes_opt := Some (orderNotes st),
                     total := NumberV (calculateTotal (editedItems st))\<rparr>;
               updatedOrders =
                 map (\<lambda>ord. if id_num ord = id_num modifiedOrder then modifiedOrder else ord)
                   (orders st)
           in st\<lparr>orders := updatedOrders, allOrders := updatedOrders,
                  orders_slot := updatedOrders, selectedOrder := None\<rparr>))"

section \<open>Display order and id reset (orders page)\<close>

text \<open>
  \<open>filterAndSortOrders\<close>, \<open>part_001\<close> lines 1090-1111: the list the page displays.  It is
  computed from a copy, the active list itself is never reordered.  \<open>Array.prototype.sort\<close>
  is stable, and the comparator \<open>b.key - a.key\<close> orders by descending key, which is a
  stable sort on the negated key; \<open>preparationTime || 0\<close> reads a missing time as 0.
\<close>

definition filterAndSortOrders :: "orders_page \<Rightarrow> order list" where
  "filterAndSortOrders st =
     (let filtered =
            (if statusFilter st \<noteq> ''All''
             then filter (\<lambda>ord. status ord = statusFilter st) (orders st)
             else orders st);
          sorted =
            (if sortCriteria st = ''timestamp''
               then sort_key (\<lambda>ord. - timestamp ord) filtered
             else if sortCriteria st = ''preparationTime''
               then sort_key (\<lambda>ord. - (case preparationTime ord of Some p \<Rightarrow> p | None \<Rightarrow> 0))
                      filtered
             else if sortCriteria st = ''queueTime''
               then sort_key (\<lambda>ord. - queueTime ord) filtered
             else filtered)
      in if sortDirection st = ''asc'' then rev sorted else sorted)"

text \<open>
  \<open>confirmRestartOrderId\<close>, \<open>part_001\<close> lines 1248-1262.  \<open>reset_ids\<close> is
  \<open>list.map((order, index) => ({...order, id: index + 1}))\<close>.  The displayed list is set
  to the reset active list and then recomputed by the effect that runs
  \<open>filterAndSortOrders\<close> whenever the active list changes.
\<close>

definition reset_ids :: "order list \<Rightarrow> order list" where
  "reset_ids os = map (\<lambda>p. (snd p)\<lparr>id_num := int (fst p) + 1\<rparr>) (enumerate 0 os)"

definition confirmRestartOrderId :: "orders_page \<Rightarrow> orders_page" where
  "confirmRestartOrderId st =
     (let resetOrders = reset_ids (orders st);
          resetAllOrders = reset_ids (allOrders st)
      in st\<lparr>orders := resetOrders, allOrders := resetAllOrders, orders_slot := resetOrders\<rparr>)"

section \<open>Import (orders page)\<close>

text \<open>
  JSON documents, and the result of reading a property: \<open>data.orders\<close> is \<open>undefined\<close>
  when the key is missing or \<open>data\<close> is a number, string, boolean or array, and throws a
  \<open>TypeError\<close> when \<open>data\<close> is \<open>null\<close>.
\<close>

datatype json =
    JNull
  | JBool bool
  | JNum rat
  | JStr string
  | JArr "json list"
  | JObj "(string \<times> json) list"

datatype jsval = Undefined | Value json

fun get_property :: "json \<Rightarrow> string \<Rightarrow> js_error + jsval" where
  "get_property JNull key = Inl TypeError"
| "get_property (JObj members) key =
     Inr (case map_of members key of Some v \<Rightarrow> Value v | None \<Rightarrow> Undefined)"
| "get_property other key = Inr Undefined"

text \<open>
  Local storage holds strings.  A string written as \<open>JSON.stringify(v)\<close> is represented by
  \<open>v\<close>; \<open>JSON.stringify(undefined)\<close> is \<open>undefined\<close>, which \<open>setItem\<close> stores as the text
  \<open>undefined\<close>, a text \<open>JSON.parse\<close> rejects.
\<close>

datatype stored = Stringified json | Undefined_text

type_synonym local_storage = "string \<rightharpoonup> stored"

fun stringify :: "jsval \<Rightarrow> stored" where
  "stringify Undefined = Undefined_text"
| "stringify (Value v) = Stringified v"

datatype message_type = Success | Error

text \<open>
  \<open>importData\<close>, \<open>orders.tsx\<close> lines 433-457, from the moment the file is read.
  \<open>parsed\<close> is the outcome of \<open>JSON.parse\<close> on the file's text, \<open>None\<close> when it throws.
  The statements of the \<open>try\<close> block run in order, and an exception leaves the writes
  already made.  The result is the storage and the type of the message shown.  The call of
  \<open>loadOrders\<close> before the success message catches its own exceptions.
\<close>

definition importData :: "json option \<Rightarrow> local_storage \<Rightarrow> local_storage \<times> message_type" where
  "importData parsed ls =
     (case parsed of
        None \<Rightarrow> (ls, Error)
      | Some data \<Rightarrow>
          (case get_property data ''orders'' of
             Inl e \<Rightarrow> (ls, Error)
           | Inr v1 \<Rightarrow>
               (let ls1 = ls(''orders'' \<mapsto> stringify v1) in
                (case get_property data ''preferences'' of
                   Inl e \<Rightarrow> (ls1, Error)
                 | Inr v2 \<Rightarrow>
                     (let ls2 = ls1(''systemPreferences'' \<mapsto> stringify v2) in
                      (case get_property data ''inventory'' of
                         Inl e \<Rightarrow> (ls2, Error)
                       | Inr v3 \<Rightarrow> (ls2(''inventory'' \<mapsto> stringify v3), Success)))))))"

text \<open>
  \<open>loadOrders\<close>, \<open>orders.tsx\<close> lines 107-122, as far as its outcome: it fails (and shows
  'Failed to load orders') exactly when the text under \<open>'orders'\<close> does not parse.
\<close>

definition loadOrders_fails :: "local_storage \<Rightarrow> bool" where
  "loadOrders_fails ls = (ls ''orders'' = Some Undefined_text)"

section \<open>Order creation (point-of-sale page)\<close>

text \<open>
  State of \<open>BufBaristaPOS\<close>, \<open>src/pages/pos.tsx\<close> lines 49-66, with the two local-storage
  keys \<open>confirmOrder\<close> writes.
\<close>

record pos_page =
  cart :: "order_item list"
  firstName :: string
  lastInitial :: string
  orderNumber :: int
  isComplimentaryMode :: bool
  queueStartTime :: "int option"
  pos_orders_slot :: "order list"
  lastOrderNumber_slot :: "int option"

text \<open>
  \<open>calculateTotal\<close> of the point-of-sale page, \<open>pos.tsx\<close> lines 196-202: the number 0 in
  complimentary mode, otherwise the string \<open>cart.reduce(...).toFixed(2)\<close>.
\<close>

definition calculateTotal_pos :: "pos_page \<Rightarrow> js_value" where
  "calculateTotal_pos st =
     (if isComplimentaryMode st then NumberV 0
      else StringV
             (toFixed2 (foldl (\<lambda>sum item. sum + price item * of_int (quantity item)) 0 (cart st))))"

text \<open>
  \<open>confirmOrder\<close>, \<open>pos.tsx\<close> lines 209-239.  \<open>now\<close> is \<open>orderStartTime\<close>, \<open>now'\<close> the
  later \<open>new Date()\<close> that restarts the queue clock.  \<open>toLocaleString()\<close> drops the
  milliseconds of the timestamp.  The new order is put in front of the stored ones.
\<close>

definition newOrder :: "int \<Rightarrow> pos_page \<Rightarrow> order" where
  "newOrder now st =
     \<lparr>id_num = orderNumber st,
      customerName = firstName st @ '' '' @ lastInitial st @ ''.'',
      status = ''Pending'',
      timestamp = now - now mod 1000,
      items = cart st,
      total = calculateTotal_pos st,
      isComplimentary = isComplimentaryMode st,
      queueTime = (case queueStartTime st of
                     Some q \<Rightarrow> of_int (now - q) / 1000
                   | None \<Rightarrow> 0),
      preparationTime = None,
      leadInterest = None,
      startTime = Some now,
      notes_opt = None\<rparr>"

definition confirmOrder :: "int \<Rightarrow> int \<Rightarrow> pos_page \<Rightarrow> pos_page" where
  "confirmOrder now now' st =
     (if firstName st = [] \<or> lastInitial st = [] then st
      else st\<lparr>pos_orders_slot := newOrder now st # pos_orders_slot st,
              lastOrderNumber_slot := Some (orderNumber st),
              cart := [],
              firstName := [],
              lastInitial := [],
              orderNumber := orderNumber st + 1,
              queueStartTime := Some now'\<rparr>)"

section \<open>The menu and the cart (point-of-sale page)\<close>

text \<open>\<open>menuItems\<close>, \<open>pos.tsx\<close> lines 19-38.\<close>

record menu_item =
  menu_id :: int
  menu_name :: string
  menu_price :: rat
  menu_category :: string

definition menuItems :: "menu_item list" where
  "menuItems =
     [\<lparr>menu_id = 1, menu_name = ''Espresso'', menu_price = 5 / 2, menu_category = ''Coffee''\<rparr>,
      \<lparr>menu_id = 2, menu_name = ''Americano'', menu_price = 3, menu_category = ''Coffee''\<rparr>,
      \<lparr>menu_id = 3, menu_name = ''Latte'', menu_price = 7 / 2, menu_category = ''Coffee''\<rparr>,
      \<lparr>menu_id = 4, menu_name = ''Cappuccino'', menu_price = 7 / 2, menu_category = ''Coffee''\<rparr>,
      \<lparr>menu_id = 5, menu_name = ''Caramel Crunch Crusher'', menu_price = 9 / 2,
        menu_category = ''Specialty''\<rparr>,
      \<lparr>menu_id = 6, menu_name = ''Vanilla Dream Latte'', menu_price = 9 / 2,
        menu_category = ''Specialty''\<rparr>,
      \<lparr>menu_id = 7, menu_name = ''Hazelnut Heaven Cappuccino'', menu_price = 9 / 2,
        menu_category = ''Specialty''\<rparr>,
      \<lparr>menu_id = 8, menu_name = ''Green Tea'', menu_price = 5 / 2, menu_category = ''Tea''\<rparr>,
      \<lparr>menu_id = 9, menu_name = ''Black Tea'', menu_price = 5 / 2, menu_category = ''Tea''\<rparr>,
      \<lparr>menu_id = 10, menu_name = ''Chai Tea'', menu_price = 3, menu_category = ''Tea''\<rparr>,
      \<lparr>menu_id = 11, menu_name = ''Croissant'', menu_price = 2, menu_category = ''Pastries''\<rparr>,
      \<lparr>menu_id = 12, menu_name = ''Flat White'', menu_price = 7 / 2, menu_category = ''Coffee''\<rparr>,
      \<lparr>menu_id = 14, menu_name = ''Cortado'', menu_price = 7 / 2, menu_category = ''Coffee''\<rparr>]"

text \<open>
  The cart updaters of \<open>pos.tsx\<close>: \<open>addToCart\<close> (lines 107-131; a coffee opens the flavour
  dialogue and leaves the cart alone), \<open>confirmFlavorSelection\<close> (lines 133-170),
  \<open>removeFromCart\<close> (lines 172-184) and \<open>increaseQuantity\<close> (lines 186-194).  Each is
  the function passed to \<open>setCart\<close>.  Reading \<open>item.quantity\<close> at an index outside the
  cart throws a \<open>TypeError\<close>, the value \<open>None\<close> here.
\<close>

definition cart_entry :: "menu_item \<Rightarrow> string option \<Rightarrow> order_item" where
  "cart_entry item fl =
     \<lparr>item_id = menu_id item, name = menu_name item, quantity = 1, price = menu_price item,
      category = menu_category item, flavor = fl\<rparr>"

definition add_entry :: "order_item \<Rightarrow> order_item list \<Rightarrow> order_item list" where
  "add_entry entry prevCart =
     (case find (\<lambda>ci. item_id ci = item_id entry \<and> flavor ci = flavor entry) prevCart of
        Some existingItem \<Rightarrow>
          map (\<lambda>ci. if item_id ci = item_id entry \<and> flavor ci = flavor entry
                     then ci\<lparr>quantity := quantity ci + 1\<rparr> else ci) prevCart
      | None \<Rightarrow> prevCart @ [entry])"

definition addToCart :: "menu_item \<Rightarrow> order_item list \<Rightarrow> order_item list" where
  "addToCart item prevCart =
     (if menu_category item = ''Coffee'' then prevCart
      else add_entry (cart_entry item None) prevCart)"

definition confirmFlavorSelection ::
  "menu_item option \<Rightarrow> string \<Rightarrow> order_item list \<Rightarrow> order_item list" where
  "confirmFlavorSelection selectedCoffeeItem selectedFlavor prevCart =
     (case selectedCoffeeItem of
        None \<Rightarrow> prevCart
      | Some item \<Rightarrow>
          add_entry
            (cart_entry item (if selectedFlavor = ''No Flavoring'' then None else Some selectedFlavor))
            prevCart)"

definition removeFromCart :: "nat \<Rightarrow> order_item list \<Rightarrow> order_item list option" where
  "removeFromCart index prevCart =
     (if index < length prevCart then
        (let item = prevCart ! index in
         if quantity item > 1
         then Some (prevCart[index := item\<lparr>quantity := quantity item - 1\<rparr>])
         else Some (take index prevCart @ drop (Suc index) prevCart))
      else None)"

definition increaseQuantity :: "nat \<Rightarrow> order_item list \<Rightarrow> order_item list option" where
  "increaseQuantity index prevCart =
     (if index < length prevCart then
        (let item = prevCart ! index in
         Some (prevCart[index := item\<lparr>quantity := quantity item + 1\<rparr>]))
      else None)"

section \<open>Reporting engine (reports page)\<close>

text \<open>
  \<open>fetchOrders\<close>, \<open>reports.tsx\<close> lines 120-134, loads the value of the \<open>'orders'\<close> key; the
  functions below take that list.  \<open>start\<close> and \<open>end\<close> are the instants \<open>getDateRange\<close>
  returns.  \<open>filteredOrders\<close>, lines 163-169; \<open>totalSales\<close>, lines 216-221;
  \<open>totalOrders\<close>, line 223; \<open>averageOrderValue\<close>, lines 225-228.
\<close>

definition filteredOrders :: "int \<Rightarrow> int \<Rightarrow> order list \<Rightarrow> order list" where
  "filteredOrders start end os =
     filter (\<lambda>ord. start \<le> timestamp ord \<and> timestamp ord \<le> end) os"

definition totalSales :: "order list \<Rightarrow> js_value" where
  "totalSales fos =
     foldl (\<lambda>sum ord. js_plus sum (if isComplimentary ord then NumberV 0 else total ord))
       (NumberV 0) fos"


definition averageOrderValue :: "order list \<Rightarrow> jsnum" where
  "averageOrderValue fos =
     (let paidOrders = filter (\<lambda>ord. \<not> isComplimentary ord) fos
      in if length paidOrders > 0
         then js_divide (to_number (totalSales fos)) (Num (of_nat (length paidOrders)))
         else Num 0)"

section \<open>Daily aggregation (reports page)\<close>

text \<open>
  Calendar days.  \<open>format(date, 'yyyy-MM-dd')\<close> names the calendar day of an instant; the
  day is modelled by its number, \<open>dayOf\<close>, and the order of the date strings under
  \<open>localeCompare\<close> by the order of the day numbers.  \<open>eachDayOfInterval\<close> is the
  \<open>date-fns\<close> library function: the days from the day of \<open>start\<close> to the day of \<open>end\<close>,
  a \<open>RangeError\<close> when \<open>start\<close> is after \<open>end\<close>.  Instants are counted in local time
  and a day has 86400000 milliseconds.
\<close>

definition msPerDay :: int where
  "msPerDay = 86400000"

definition dayOf :: "int \<Rightarrow> int" where
  "dayOf t = t div msPerDay"

definition eachDayOfInterval :: "int \<Rightarrow> int \<Rightarrow> js_error + int list" where
  "eachDayOfInterval start end =
     (if end < start then Inl RangeError else Inr [dayOf start..dayOf end])"

text \<open>
  The objects \<open>{sales, orders}\<close> and \<open>{date, sales, orders}\<close>.  The object \<open>data\<close> that is
  indexed by date string is an association list in insertion order.
\<close>

record day_totals =
  sales :: js_value
  orders_cnt :: nat

record daily = day_totals +
  date :: int

text \<open>
  \<open>salesData\<close>, \<open>reports.tsx\<close> lines 171-196.  \<open>add_order\<close> is the body of
  \<open>filteredOrders.forEach\<close>: it creates a missing entry, then adds to the entry of the
  order's day.
\<close>

definition add_to_day :: "order \<Rightarrow> int \<times> day_totals \<Rightarrow> int \<times> day_totals" where
  "add_to_day ord kv =
     (if fst kv = dayOf (timestamp ord)
      then (fst kv,
            (snd kv)\<lparr>sales := js_plus (sales (snd kv))
                                  (if isComplimentary ord then NumberV 0 else total ord),
                     orders_cnt := orders_cnt (snd kv) + 1\<rparr>)
      else kv)"

definition add_order :: "(int \<times> day_totals) list \<Rightarrow> order \<Rightarrow> (int \<times> day_totals) list" where
  "add_order data ord =
     (let day = dayOf (timestamp ord);
          data1 = (if map_of data day = None
                   then data @ [(day, \<lparr>sales = NumberV 0, orders_cnt = 0\<rparr>)] else data)
      in map (add_to_day ord) data1)"

definition salesData :: "int \<Rightarrow> int \<Rightarrow> order list \<Rightarrow> js_error + daily list" where
  "salesData start end os =
     (case eachDayOfInterval start end of
        Inl e \<Rightarrow> Inl e
      | Inr days \<Rightarrow>
          (let data0 = map (\<lambda>day. (day, \<lparr>sales = NumberV 0, orders_cnt = 0\<rparr>)) days;
               data = foldl add_order data0 (filteredOrders start end os)
           in Inr (sort_key date
                     (map (\<lambda>kv. \<lparr>sales = sales (snd kv), orders_cnt = orders_cnt (snd kv),
                                  date = fst kv\<rparr>) data))))"

text \<open>
  \<open>dailySalesAndOrders\<close>, \<open>reports.tsx\<close> lines 462-481: the same, but the loop body
  reads \<open>dailyData[date].sales\<close> without creating a missing entry, which throws a
  \<open>TypeError\<close> when the day of an order has no entry.
\<close>

fun forEach_daily :: "order list \<Rightarrow> (int \<times> day_totals) list \<Rightarrow> js_error + (int \<times> day_totals) list" where
  "forEach_daily [] dailyData = Inr dailyData"
| "forEach_daily (ord # rest) dailyData =
     (if map_of dailyData (dayOf (timestamp ord)) = None then Inl TypeError
      else forEach_daily rest (map (add_to_day ord) dailyData))"

definition dailySalesAndOrders :: "int \<Rightarrow> int \<Rightarrow> order list \<Rightarrow> js_error + daily list" where
  "dailySalesAndOrders start end os =
     (case eachDayOfInterval start end of
        Inl e \<Rightarrow> Inl e
      | Inr days \<Rightarrow>
          (case forEach_daily (filteredOrders start end os)
                  (map (\<lambda>day. (day, \<lparr>sales = NumberV 0, orders_cnt = 0\<rparr>)) days) of
             Inl e \<Rightarrow> Inl e
           | Inr dailyData \<Rightarrow>
               Inr (sort_key date
                      (map (\<lambda>kv. \<lparr>sales = sales (snd kv), orders_cnt = orders_cnt (snd kv),
                                   date = fst kv\<rparr>) dailyData))))"

text \<open>
  What the loop accumulates for a day: \<open>day_values\<close> are the values the day's orders add,
  in order, \<open>day_sales\<close> their left-to-right \<open>+\<close> from the number 0, \<open>day_orders\<close> the
  number of the day's orders.
\<close>

definition day_values :: "order list \<Rightarrow> int \<Rightarrow> js_value list" where
  "day_values fos d =
     map (\<lambda>ord. if isComplimentary ord then NumberV 0 else total ord)
       (filter (\<lambda>ord. dayOf (timestamp ord) = d) fos)"

definition day_sales :: "order list \<Rightarrow> int \<Rightarrow> js_value" where
  "day_sales fos d = foldl js_plus (NumberV 0) (day_values fos d)"

definition day_orders :: "order list \<Rightarrow> int \<Rightarrow> nat" where
  "day_orders fos d = length (filter (\<lambda>ord. dayOf (timestamp ord) = d) fos)"

section \<open>Growth figures (reports page)\<close>

text \<open>
  \<open>calculateMovingAverage\<close>, \<open>reports.tsx\<close> lines 245-251; \<open>slice(start, index + 1)\<close> is
  never empty, so the division is by a positive length.
\<close>

definition calculateMovingAverage :: "js_value list \<Rightarrow> nat \<Rightarrow> jsnum list" where
  "calculateMovingAverage data periods =
     map (\<lambda>index.
            (let start = nat (max 0 (int index - int periods + 1));
                 vals = take (index + 1 - start) (drop start data)
             in js_divide (to_number (foldl (\<lambda>sum val. js_plus sum val) (NumberV 0) vals))
                  (Num (of_nat (length vals)))))
       [0..<length data]"

text \<open>
  \<open>enhancedSalesTrend\<close>, \<open>reports.tsx\<close> lines 253-288.  \<open>previous_value\<close> is
  \<open>values[index - 1] || values[index]\<close>: the element before, unless it is missing
  (\<open>index = 0\<close>) or read as false by \<open>||\<close> (the number 0, the empty string).  \<open>growth\<close> is
  \<open>((value - previous) / previous) * 100\<close>.
\<close>

record trend_metrics = daily +
  movingAverageSales :: jsnum
  movingAverageOrders :: jsnum
  salesGrowth :: jsnum
  ordersGrowth :: jsnum
  trend :: string

definition previous_value :: "js_value list \<Rightarrow> nat \<Rightarrow> js_value" where
  "previous_value vals index =
     (if index = 0 then vals ! index
      else if truthy (vals ! (index - 1)) then vals ! (index - 1)
      else vals ! index)"

definition growth :: "js_value list \<Rightarrow> nat \<Rightarrow> jsnum" where
  "growth vals index =
     js_times
       (js_divide
          (js_minus (to_number (vals ! index)) (to_number (previous_value vals index)))
          (to_number (previous_value vals index)))
       100"

definition enhancedSalesTrend :: "daily list \<Rightarrow> trend_metrics list" where
  "enhancedSalesTrend baseData =
     (let salesValues = map sales baseData;
          ordersValues = map (\<lambda>item. NumberV (of_nat (orders_cnt item))) baseData;
          movingAverageSales = calculateMovingAverage salesValues 7;
          movingAverageOrders = calculateMovingAverage ordersValues 7
      in map (\<lambda>index.
                \<lparr>sales = sales (baseData ! index),
                 orders_cnt = orders_cnt (baseData ! index),
                 date = date (baseData ! index),
                 movingAverageSales = movingAverageSales ! index,
                 movingAverageOrders = movingAverageOrders ! index,
                 salesGrowth = growth salesValues index,
                 ordersGrowth = growth ordersValues index,
                 trend = (if js_greater (growth salesValues index) 1 then ''up''
                          else if js_less (growth salesValues index) (- 1) then ''down''
                          else ''stable'')\<rparr>)
           [0..<length baseData])"

text \<open>
  \<open>salesGrowthRate\<close>, \<open>reports.tsx\<close> lines 418-440.  The guard
  \<open>previousPeriodSales !== 0\<close> is a strict comparison with the number 0, so a string
  passes it.  The earlier window runs from \<open>start - (end - start)\<close> up to, not including,
  \<open>start\<close>.
\<close>

definition salesGrowthRate :: "int \<Rightarrow> int \<Rightarrow> order list \<Rightarrow> jsnum" where
  "salesGrowthRate start end os =
     (let periodLength = end - start;
          previousPeriodStart = start - periodLength;
          currentPeriodSales =
            foldl (\<lambda>sum ord. js_plus sum (if isComplimentary ord then NumberV 0 else total ord))
              (NumberV 0) (filteredOrders start end os);
          previousPeriodSales =
            foldl (\<lambda>sum ord. js_plus sum (if isComplimentary ord then NumberV 0 else total ord))
              (NumberV 0)
              (filter (\<lambda>ord. previousPeriodStart \<le> timestamp ord \<and> timestamp ord < start) os)
      in if previousPeriodSales \<noteq> NumberV 0
         then js_times
                (js_divide
                   (js_minus (to_number currentPeriodSales) (to_number previousPeriodSales))
                   (to_number previousPeriodSales))
                100
         else Num 100)"

section \<open>Concrete inputs\<close>

text \<open>The orders, pages, carts and documents the closed theorems below evaluate.\<close>

definition order_A :: order where
  "order_A =
     \<lparr>id_num = 7, customerName = ''Ada L.'', status = ''In Progress'', timestamp = 2000,
      items = [], total = NumberV 0, isComplimentary = True, queueTime = 0,
      preparationTime = None, leadInterest = None, startTime = Some 2000, notes_opt = None\<rparr>"

definition order_B :: order where
  "order_B =
     \<lparr>id_num = 3, customerName = ''Bob K.'', status = ''Pending'', timestamp = 1000,
      items = [], total = NumberV 0, isComplimentary = True, queueTime = 0,
      preparationTime = None, leadInterest = None, startTime = Some 1000, notes_opt = None\<rparr>"

definition page_AB :: orders_page where
  "page_AB =
     \<lparr>orders = [order_A, order_B], allOrders = [order_A, order_B],
      statusFilter = ''All'', sortCriteria = ''timestamp'', sortDirection = ''asc'',
      selectedOrder = None, editedItems = [], orderNotes = [],
      orders_slot = [order_A, order_B]\<rparr>"

definition order_C :: order where
  "order_C =
     \<lparr>id_num = 9, customerName = ''Cy M.'', status = ''Pending'', timestamp = 3000,
      items = [], total = NumberV 0, isComplimentary = True, queueTime = 0,
      preparationTime = None, leadInterest = None, startTime = None, notes_opt = None\<rparr>"

definition page_AC :: orders_page where
  "page_AC =
     \<lparr>orders = [order_A, order_C], allOrders = [order_A, order_C],
      statusFilter = ''All'', sortCriteria = ''timestamp'', sortDirection = ''desc'',
      selectedOrder = None, editedItems = [], orderNotes = [],
      orders_slot = [order_A, order_C]\<rparr>"

definition item_latte :: order_item where
  "item_latte =
     \<lparr>item_id = 3, name = ''Latte'', quantity = 2, price = 7 / 2, category = ''Coffee'',
      flavor = None\<rparr>"

definition pos_ex :: pos_page where
  "pos_ex =
     \<lparr>cart = [item_latte], firstName = ''Ada'', lastInitial = ''L'', orderNumber = 12,
      isComplimentaryMode = False, queueStartTime = Some 1000, pos_orders_slot = [],
      lastOrderNumber_slot = Some 11\<rparr>"

text \<open>
  Two paid orders placed one after the other on the point-of-sale page: two lattes
  without flavouring, then, with the page as the first order left it, one croissant.
  \<open>pos_two_orders\<close> is what the \<open>'orders'\<close> key then holds, the newer order first.
\<close>

definition pos_ex2 :: pos_page where
  "pos_ex2 =
     (confirmOrder 4000 4001 pos_ex)
       \<lparr>cart := addToCart (menuItems ! 10) [], firstName := ''Bob'', lastInitial := ''K''\<rparr>"

definition pos_two_orders :: "order list" where
  "pos_two_orders = pos_orders_slot (confirmOrder 9000 9001 pos_ex2)"

definition item_croissant :: order_item where
  "item_croissant =
     \<lparr>item_id = 11, name = ''Croissant'', quantity = 1, price = 2, category = ''Pastries'',
      flavor = None\<rparr>"

definition order_D :: order where
  "order_D =
     \<lparr>id_num = 5, customerName = ''Dee P.'', status = ''Pending'', timestamp = 4000,
      items = [item_latte, item_croissant], total = NumberV 9, isComplimentary = False, queueTime = 3,
      preparationTime = None, leadInterest = None, startTime = Some 4000, notes_opt = None\<rparr>"

definition page_D :: orders_page where
  "page_D =
     \<lparr>orders = [order_D], allOrders = [order_D],
      statusFilter = ''All'', sortCriteria = ''timestamp'', sortDirection = ''desc'',
      selectedOrder = None, editedItems = [], orderNotes = [],
      orders_slot = [order_D]\<rparr>"

definition updates_quantity_3 :: item_updates where
  "updates_quantity_3 = \<lparr>upd_name = None, upd_quantity = Some 3, upd_price = None\<rparr>"

definition page_D_editing :: orders_page where
  "page_D_editing = removeEditedItem 0 (modifyOrder 5 page_D)"

definition paid_10 :: order where
  "paid_10 =
     \<lparr>id_num = 1, customerName = ''Eve R.'', status = ''Completed'', timestamp = 1000,
      items = [], total = NumberV 10, isComplimentary = False, queueTime = 0,
      preparationTime = None, leadInterest = None, startTime = None, notes_opt = None\<rparr>"

definition free_0 :: order where
  "free_0 =
     \<lparr>id_num = 2, customerName = ''Fay S.'', status = ''Completed'', timestamp = 2000,
      items = [], total = NumberV 0, isComplimentary = True, queueTime = 0,
      preparationTime = None, leadInterest = None, startTime = None, notes_opt = None\<rparr>"

definition paid_20 :: order where
  "paid_20 =
     \<lparr>id_num = 3, customerName = ''Gus T.'', status = ''Completed'', timestamp = 86401000,
      items = [], total = NumberV 20, isComplimentary = False, queueTime = 0,
      preparationTime = None, leadInterest = None, startTime = None, notes_opt = None\<rparr>"

definition report_orders :: "order list" where
  "report_orders = [paid_10, free_0, paid_20]"

text \<open>A document without the \<open>orders\<close> key, and a storage that holds one order.\<close>

definition document_without_orders :: json where
  "document_without_orders = JObj [(''preferences'', JObj []), (''inventory'', JArr [])]"

definition storage_with_order :: local_storage where
  "storage_with_order =
     [''orders'' \<mapsto> Stringified (JArr [JObj [(''id'', JNum 1), (''status'', JStr ''Pending'')]])]"

section \<open>Cancelling\<close>

lemma cancelOrder_declined: "cancelOrder False orderId st = st"
  by (simp add: cancelOrder_def)

lemma cancelOrder_True_orders:
  "orders (cancelOrder True orderId st) = filter (\<lambda>ord. id_num ord \<noteq> orderId) (orders st)"
  by (simp add: cancelOrder_def Let_def)

lemma cancelOrder_True_allOrders:
  "allOrders (cancelOrder True orderId st) =
     map (\<lambda>ord. if id_num ord = orderId then ord\<lparr>status := ''Cancelled''\<rparr> else ord)
       (allOrders st)"
  by (simp add: cancelOrder_def Let_def)

lemma click_cancel_button_disabled:
  "status ord \<noteq> ''Pending'' \<Longrightarrow> click_cancel_button confirmed ord st = st"
  by (simp add: click_cancel_button_def cancel_button_disabled_def)

lemma cancelOrder_marks_Cancelled:
  assumes "x \<in> set (allOrders (cancelOrder True orderId st))" and "id_num x = orderId"
  shows "status x = ''Cancelled''"
proof -
  from assms(1) obtain y where y: "y \<in> set (allOrders st)"
    and x: "x = (if id_num y = orderId then y\<lparr>status := ''Cancelled''\<rparr> else y)"
    unfolding cancelOrder_True_allOrders set_map by blast
  show ?thesis
  proof (cases "id_num y = orderId")
    case True
    with x show ?thesis by simp
  next
    case False
    with x assms(2) show ?thesis by simp
  qed
qed

text \<open>
  C1 (as stated, refuted): \<open>cancelOrder\<close> checks no status.  Called with the
  user's confirmation on order 7, which is 'In Progress', it removes the order from the
  active list and marks it 'Cancelled' in the historical list.
\<close>

theorem cancelOrder_non_pending_counterexample:
  "status order_A \<noteq> ''Pending''
   \<and> order_A \<in> set (orders page_AB)
   \<and> order_A \<notin> set (orders (cancelOrder True 7 page_AB))
   \<and> map status (allOrders (cancelOrder True 7 page_AB)) = [''Cancelled'', ''Pending'']
   \<and> cancelOrder True 7 page_AB \<noteq> page_AB"
proof -
  have 1: "orders (cancelOrder True 7 page_AB) = [order_B]"
    by (simp add: cancelOrder_def Let_def page_AB_def order_A_def order_B_def)
  have 2: "map status (allOrders (cancelOrder True 7 page_AB)) = [''Cancelled'', ''Pending'']"
    by (simp add: cancelOrder_def Let_def page_AB_def order_A_def order_B_def)
  have 3: "orders page_AB = [order_A, order_B]"
    by (simp add: page_AB_def)
  have 4: "order_A \<noteq> order_B"
    by (simp add: order_A_def order_B_def)
  have 5: "status order_A \<noteq> ''Pending''"
    by (simp add: order_A_def)
  from 1 3 4 have "cancelOrder True 7 page_AB \<noteq> page_AB"
    by (metis list.inject)
  with 1 2 3 4 5 show ?thesis by simp
qed

text \<open>
  C1 (amended): the status precondition lives in the cancel button alone.  For an order
  whose status is not 'Pending' the button is disabled, so a click leaves the whole page
  state (status, active list, historical list, stored list) unchanged; \<open>cancelOrder\<close>
  itself changes nothing when the user declines the confirmation, and with the
  confirmation it removes every order of that id from the active list and marks every
  order of that id 'Cancelled' in the historical list, whatever the status was.
\<close>

theorem cancel_button_guards_non_pending:
  "(status ord \<noteq> ''Pending'' \<longrightarrow> click_cancel_button confirmed ord st = st)
   \<and> cancelOrder False orderId st = st
   \<and> (\<forall>x \<in> set (orders (cancelOrder True orderId st)). id_num x \<noteq> orderId)
   \<and> (\<forall>x \<in> set (allOrders (cancelOrder True orderId st)).
         id_num x = orderId \<longrightarrow> status x = ''Cancelled'')
   \<and> length (allOrders (cancelOrder True orderId st)) = length (allOrders st)"
proof (intro conjI impI ballI)
  show "cancelOrder False orderId st = st"
    by (rule cancelOrder_declined)
  show "length (allOrders (cancelOrder True orderId st)) = length (allOrders st)"
    by (simp add: cancelOrder_True_allOrders)
next
  assume "status ord \<noteq> ''Pending''"
  then show "click_cancel_button confirmed ord st = st"
    by (rule click_cancel_button_disabled)
next
  fix x assume "x \<in> set (orders (cancelOrder True orderId st))"
  then show "id_num x \<noteq> orderId"
    by (simp add: cancelOrder_True_orders)
next
  fix x assume "x \<in> set (allOrders (cancelOrder True orderId st))" and "id_num x = orderId"
  then show "status x = ''Cancelled''"
    by (rule cancelOrder_marks_Cancelled)
qed

theorem cancel_button_guards_non_pending_witness:
  "status order_A \<noteq> ''Pending''
   \<and> click_cancel_button True order_A page_AB = page_AB
   \<and> order_B \<in> set (orders (cancelOrder True 7 page_AB))
   \<and> id_num order_B \<noteq> 7
   \<and> hd (allOrders (cancelOrder True 7 page_AB)) \<in> set (allOrders (cancelOrder True 7 page_AB))
   \<and> id_num (hd (allOrders (cancelOrder True 7 page_AB))) = 7
   \<and> status (hd (allOrders (cancelOrder True 7 page_AB))) = ''Cancelled''"
proof -
  have s: "status order_A \<noteq> ''Pending''"
    by (simp add: order_A_def)
  have b: "order_B \<in> set (orders (cancelOrder True 7 page_AB))"
    by (simp add: cancelOrder_True_orders page_AB_def order_A_def order_B_def)
  have h: "hd (allOrders (cancelOrder True 7 page_AB)) \<in> set (allOrders (cancelOrder True 7 page_AB))"
    by (simp add: cancelOrder_True_allOrders page_AB_def)
  have i: "id_num (hd (allOrders (cancelOrder True 7 page_AB))) = 7"
    by (simp add: cancelOrder_True_allOrders page_AB_def order_A_def)
  from cancel_button_guards_non_pending [of order_A True page_AB 7] s b h i
  show ?thesis by blast
qed

section \<open>Status updates\<close>

lemma updateOrderStatus_orders:
  "orders (updateOrderStatus now orderId newStatus st) =
     map (updateOrderStatus_order now orderId newStatus) (orders st)"
  by (simp add: updateOrderStatus_def Let_def)

lemma updateOrderStatus_allOrders:
  "allOrders (updateOrderStatus now orderId newStatus st) =
     map (updateOrderStatus_order now orderId newStatus) (orders st)"
  by (simp add: updateOrderStatus_def Let_def)

lemma updateOrderStatus_orders_slot:
  "orders_slot (updateOrderStatus now orderId newStatus st) =
     map (updateOrderStatus_order now orderId newStatus) (orders st)"
  by (simp add: updateOrderStatus_def Let_def)

lemma updateOrderStatus_order_status:
  "id_num ord = orderId \<Longrightarrow> status (updateOrderStatus_order now orderId newStatus ord) = newStatus"
  by (simp add: updateOrderStatus_order_def Let_def split: option.split)

lemma updateOrderStatus_order_Completed_started:
  "id_num ord = orderId \<Longrightarrow> startTime ord = Some s \<Longrightarrow>
   preparationTime (updateOrderStatus_order now orderId ''Completed'' ord) =
     Some (of_int (now - s) / 1000)"
  by (simp add: updateOrderStatus_order_def Let_def)

lemma updateOrderStatus_order_Completed_unstarted:
  "startTime ord = None \<Longrightarrow>
   preparationTime (updateOrderStatus_order now orderId ''Completed'' ord) = preparationTime ord"
  by (simp add: updateOrderStatus_order_def Let_def)


lemma updateOrderStatus_order_other:
  "id_num ord \<noteq> orderId \<Longrightarrow> updateOrderStatus_order now orderId newStatus ord = ord"
  by (simp add: updateOrderStatus_order_def)

text \<open>
  C2 (as stated, refuted): order 7 has the \<open>startTime\<close> 2000.  Completed when the clock
  reads 1000, it gets the \<open>preparationTime\<close> \<open>(1000 - 2000) / 1000 = -1\<close> seconds, which is
  not \<open>\<ge> 0\<close>: the handler subtracts two clock readings and does not clamp.
\<close>

theorem updateOrderStatus_Completed_negative_counterexample:
  "id_num (orders page_AC ! 0) = 7
   \<and> startTime (orders page_AC ! 0) = Some 2000
   \<and> status (orders (updateOrderStatus 1000 7 ''Completed'' page_AC) ! 0) = ''Completed''
   \<and> preparationTime (orders (updateOrderStatus 1000 7 ''Completed'' page_AC) ! 0) = Some (- 1)
   \<and> \<not> (0::rat) \<le> - 1"
  by (simp add: updateOrderStatus_orders updateOrderStatus_order_def page_AC_def order_A_def)

text \<open>
  C2 (amended): completing an order.  For the order at any position \<open>i\<close> of the active
  list whose id is the one passed to \<open>updateOrderStatus\<close> with the new status 'Completed':
  the status becomes 'Completed'; if the order has a \<open>startTime\<close> \<open>s\<close>, its
  \<open>preparationTime\<close> becomes \<open>(now - s) / 1000\<close> seconds, a value that is \<open>\<ge> 0\<close> if and
  only if the clock reading \<open>now\<close> is not before \<open>s\<close>; if it has no \<open>startTime\<close>, its
  \<open>preparationTime\<close> is left as it was, so undefined exactly if it was undefined.  The
  historical and the stored list receive the same updated list.
\<close>

theorem updateOrderStatus_Completed_elapsed_seconds:
  assumes "i < length (orders st)" and "id_num (orders st ! i) = orderId"
  shows "status (orders (updateOrderStatus now orderId ''Completed'' st) ! i) = ''Completed''
     \<and> (\<forall>s. startTime (orders st ! i) = Some s \<longrightarrow>
            preparationTime (orders (updateOrderStatus now orderId ''Completed'' st) ! i)
              = Some (of_int (now - s) / 1000)
            \<and> ((0::rat) \<le> of_int (now - s) / 1000) = (s \<le> now))
     \<and> (startTime (orders st ! i) = None \<longrightarrow>
            preparationTime (orders (updateOrderStatus now orderId ''Completed'' st) ! i)
              = preparationTime (orders st ! i))
     \<and> allOrders (updateOrderStatus now orderId ''Completed'' st)
           = orders (updateOrderStatus now orderId ''Completed'' st)
     \<and> orders_slot (updateOrderStatus now orderId ''Completed'' st)
           = orders (updateOrderStatus now orderId ''Completed'' st)"
proof -
  let ?st' = "updateOrderStatus now orderId ''Completed'' st"
  have nth: "orders ?st' ! i = updateOrderStatus_order now orderId ''Completed'' (orders st ! i)"
    using assms(1) by (simp add: updateOrderStatus_orders)
  have 1: "status (orders ?st' ! i) = ''Completed''"
    unfolding nth using assms(2) by (rule updateOrderStatus_order_status)
  have 2: "preparationTime (orders ?st' ! i) = Some (of_int (now - s) / 1000)"
    if "startTime (orders st ! i) = Some s" for s
    unfolding nth using assms(2) that by (rule updateOrderStatus_order_Completed_started)
  have 3: "((0::rat) \<le> of_int (now - s) / 1000) = (s \<le> now)" for s
    by simp
  have 4: "preparationTime (orders ?st' ! i) = preparationTime (orders st ! i)"
    if "startTime (orders st ! i) = None"
    unfolding nth using that by (rule updateOrderStatus_order_Completed_unstarted)
  have 5: "allOrders ?st' = orders ?st'" "orders_slot ?st' = orders ?st'"
    by (simp_all add: updateOrderStatus_allOrders updateOrderStatus_orders_slot
        updateOrderStatus_orders)
  from 1 2 3 4 5 show ?thesis by blast
qed

theorem updateOrderStatus_Completed_elapsed_seconds_witness:
  "(0::nat) < length (orders page_AC) \<and> id_num (orders page_AC ! 0) = 7
   \<and> startTime (orders page_AC ! 0) = Some 2000
   \<and> preparationTime (orders (updateOrderStatus 62000 7 ''Completed'' page_AC) ! 0) = Some 60
   \<and> preparationTime (orders (updateOrderStatus 1000 7 ''Completed'' page_AC) ! 0) = Some (- 1)
   \<and> (1::nat) < length (orders page_AC) \<and> id_num (orders page_AC ! 1) = 9
   \<and> startTime (orders page_AC ! 1) = None
   \<and> preparationTime (orders (updateOrderStatus 62000 9 ''Completed'' page_AC) ! 1) = None
   \<and> status (orders (updateOrderStatus 62000 9 ''Completed'' page_AC) ! 1) = ''Completed''"
proof -
  have a: "(0::nat) < length (orders page_AC)" "id_num (orders page_AC ! 0) = 7"
    "startTime (orders page_AC ! 0) = Some 2000"
    by (simp_all add: page_AC_def order_A_def)
  have c: "(1::nat) < length (orders page_AC)" "id_num (orders page_AC ! 1) = 9"
    "startTime (orders page_AC ! 1) = None" "preparationTime (orders page_AC ! 1) = None"
    by (simp_all add: page_AC_def order_C_def)
  from updateOrderStatus_Completed_elapsed_seconds [OF a(1) a(2), of 62000] a(3)
  have 1: "preparationTime (orders (updateOrderStatus 62000 7 ''Completed'' page_AC) ! 0) = Some 60"
    by simp
  from updateOrderStatus_Completed_elapsed_seconds [OF a(1) a(2), of 1000] a(3)
  have 2: "preparationTime (orders (updateOrderStatus 1000 7 ''Completed'' page_AC) ! 0) = Some (- 1)"
    by simp
  from updateOrderStatus_Completed_elapsed_seconds [OF c(1) c(2), of 62000] c(3) c(4)
  have 3: "preparationTime (orders (updateOrderStatus 62000 9 ''Completed'' page_AC) ! 1) = None
     \<and> status (orders (updateOrderStatus 62000 9 ''Completed'' page_AC) ! 1) = ''Completed''"
    by simp
  from a c 1 2 3 show ?thesis by simp
qed





section \<open>Clearing all orders\<close>









section \<open>Totals\<close>

lemma foldl_total_acc:
  "foldl (\<lambda>sum item. sum + price item * of_int (quantity item)) a its =
     a + (\<Sum>item\<leftarrow>its. price item * of_int (quantity item))"
  by (induction its arbitrary: a) (simp_all add: add.assoc)

lemma calculateTotal_sum_list:
  "calculateTotal its = (\<Sum>item\<leftarrow>its. price item * of_int (quantity item))"
  by (simp add: calculateTotal_def foldl_total_acc)

lemma saveModifiedOrder_orders:
  "selectedOrder st = Some sel \<Longrightarrow>
   orders (saveModifiedOrder st) =
     map (\<lambda>ord. if id_num ord = id_num sel
                then sel\<lparr>items := editedItems st, notes_opt := Some (orderNotes st),
                         total := NumberV (calculateTotal (editedItems st))\<rparr>
                else ord) (orders st)"
  by (simp add: saveModifiedOrder_def Let_def)

text \<open>
  After saving the edit form, every stored order with the id of the selected order has
  as total the number that is the sum over the items it is saved with.
\<close>

lemma saveModifiedOrder_total:
  assumes "selectedOrder st = Some sel" and "x \<in> set (orders (saveModifiedOrder st))"
    and "id_num x = id_num sel"
  shows "total x = NumberV (\<Sum>item\<leftarrow>items x. price item * of_int (quantity item))"
proof -
  let ?m = "sel\<lparr>items := editedItems st, notes_opt := Some (orderNotes st),
                 total := NumberV (calculateTotal (editedItems st))\<rparr>"
  from assms(2) obtain y where "x = (if id_num y = id_num sel then ?m else y)"
    unfolding saveModifiedOrder_orders [OF assms(1)] set_map by blast
  with assms(3) have "x = ?m"
    by (cases "id_num y = id_num sel") simp_all
  then show ?thesis
    by (simp add: calculateTotal_sum_list)
qed

lemma updateOrderItem_total:
  assumes "selectedOrder st = Some sel"
  shows "\<exists>sel'. selectedOrder (updateOrderItem orderId itemId updates st) = Some sel'
           \<and> total sel' = NumberV (\<Sum>item\<leftarrow>items sel'. price item * of_int (quantity item))"
  using assms by (simp add: updateOrderItem_def Let_def calculateTotal_sum_list)

lemma saveModifiedOrder_page_D:
  "selectedOrder page_D_editing = Some order_D"
  "items (hd (orders (saveModifiedOrder page_D_editing))) = [item_croissant]"
  "total (hd (orders (saveModifiedOrder page_D_editing))) = NumberV 2"
proof -
  have d5: "id_num order_D = 5"
    by (simp add: order_D_def)
  show sel: "selectedOrder page_D_editing = Some order_D"
    by (simp add: page_D_editing_def removeEditedItem_def modifyOrder_def page_D_def d5)
  have ed: "editedItems page_D_editing = [item_croissant]"
    by (simp add: page_D_editing_def removeEditedItem_def modifyOrder_def page_D_def d5
        enumerate_eq_zip, simp add: order_D_def)
  have os: "orders page_D_editing = [order_D]"
    by (simp add: page_D_editing_def removeEditedItem_def modifyOrder_def page_D_def d5)
  have saved: "orders (saveModifiedOrder page_D_editing) =
      [order_D\<lparr>items := [item_croissant], notes_opt := Some (orderNotes page_D_editing),
               total := NumberV (calculateTotal [item_croissant])\<rparr>]"
    by (simp add: saveModifiedOrder_orders [OF sel] ed os)
  show "items (hd (orders (saveModifiedOrder page_D_editing))) = [item_croissant]"
    by (simp add: saved)
  show "total (hd (orders (saveModifiedOrder page_D_editing))) = NumberV 2"
    by (simp add: saved calculateTotal_sum_list item_croissant_def)
qed

text \<open>
  At creation the total is the number 0 in complimentary mode; in paid mode it is the
  \<open>toFixed(2)\<close> string of the sum over the cart, never a number.
\<close>

lemma newOrder_total_complimentary:
  "isComplimentaryMode st \<Longrightarrow> total (newOrder now st) = NumberV 0"
  by (simp add: newOrder_def calculateTotal_pos_def)

lemma newOrder_total_paid:
  "\<not> isComplimentaryMode st \<Longrightarrow>
   total (newOrder now st) =
     StringV (toFixed2 (\<Sum>item\<leftarrow>cart st. price item * of_int (quantity item)))"
  by (simp add: newOrder_def calculateTotal_pos_def foldl_total_acc)

lemma newOrder_total_paid_not_number:
  "\<not> isComplimentaryMode st \<Longrightarrow> total (newOrder now st) \<noteq> NumberV r"
  by (simp add: newOrder_total_paid)

lemma toFixed2_7: "toFixed2 7 = ''7.00''"
  by code_simp

lemma toFixed2_2: "toFixed2 2 = ''2.00''"
  by code_simp

lemma number_to_string_0: "number_to_string 0 = ''0''"
  by code_simp

lemma cart_pos_ex:
  "cart pos_ex =
     confirmFlavorSelection (Some (menuItems ! 2)) ''No Flavoring''
       (confirmFlavorSelection (Some (menuItems ! 2)) ''No Flavoring'' [])"
  by (simp add: pos_ex_def item_latte_def confirmFlavorSelection_def add_entry_def cart_entry_def
      menuItems_def)

lemma cart_pos_ex2: "cart pos_ex2 = [item_croissant]"
  by (simp add: pos_ex2_def addToCart_def add_entry_def cart_entry_def menuItems_def
      item_croissant_def)

lemma newOrder_pos_ex:
  "total (newOrder 4000 pos_ex) = StringV ''7.00''"
  "\<not> isComplimentary (newOrder 4000 pos_ex)"
  "timestamp (newOrder 4000 pos_ex) = 4000"
  "items (newOrder 4000 pos_ex) = [item_latte]"
proof -
  have p: "\<not> isComplimentaryMode pos_ex"
    by (simp add: pos_ex_def)
  have c: "(\<Sum>item\<leftarrow>cart pos_ex. price item * of_int (quantity item)) = 7"
    by (simp add: pos_ex_def item_latte_def)
  show "total (newOrder 4000 pos_ex) = StringV ''7.00''"
    by (simp add: newOrder_total_paid [OF p] c toFixed2_7)
  show "\<not> isComplimentary (newOrder 4000 pos_ex)"
    by (simp add: newOrder_def pos_ex_def)
  show "timestamp (newOrder 4000 pos_ex) = 4000"
    by (simp add: newOrder_def)
  show "items (newOrder 4000 pos_ex) = [item_latte]"
    by (simp add: newOrder_def pos_ex_def)
qed

lemma newOrder_pos_ex2:
  "total (newOrder 9000 pos_ex2) = StringV ''2.00''"
  "\<not> isComplimentary (newOrder 9000 pos_ex2)"
  "timestamp (newOrder 9000 pos_ex2) = 9000"
  "items (newOrder 9000 pos_ex2) = [item_croissant]"
proof -
  have p: "\<not> isComplimentaryMode pos_ex2"
    by (simp add: pos_ex2_def confirmOrder_def pos_ex_def)
  have c: "(\<Sum>item\<leftarrow>cart pos_ex2. price item * of_int (quantity item)) = 2"
    by (simp add: cart_pos_ex2 item_croissant_def)
  show "total (newOrder 9000 pos_ex2) = StringV ''2.00''"
    by (simp add: newOrder_total_paid [OF p] c toFixed2_2)
  show "\<not> isComplimentary (newOrder 9000 pos_ex2)"
    using p by (simp add: newOrder_def)
  show "timestamp (newOrder 9000 pos_ex2) = 9000"
    by (simp add: newOrder_def)
  show "items (newOrder 9000 pos_ex2) = [item_croissant]"
    by (simp add: newOrder_def cart_pos_ex2)
qed

lemma pos_two_orders_eq: "pos_two_orders = [newOrder 9000 pos_ex2, newOrder 4000 pos_ex]"
  by (simp add: pos_two_orders_def confirmOrder_def pos_ex2_def pos_ex_def)

text \<open>
  C5: at creation the total of an order must be the sum over its items of price times
  quantity (0 when complimentary), a number like the total that saving the edit form
  stores.  The code does not store that number in paid mode: for a cart of two lattes
  built from the menu the sum is 7, and \<open>confirmOrder\<close> stores the order with the string
  \<open>7.00\<close> as its total.
\<close>

theorem confirmOrder_stores_total_as_string:
  "cart pos_ex =
     confirmFlavorSelection (Some (menuItems ! 2)) ''No Flavoring''
       (confirmFlavorSelection (Some (menuItems ! 2)) ''No Flavoring'' [])
   \<and> isComplimentaryMode pos_ex = False
   \<and> pos_orders_slot (confirmOrder 4000 4001 pos_ex) = [newOrder 4000 pos_ex]
   \<and> calculateTotal (items (newOrder 4000 pos_ex)) = 7
   \<and> total (newOrder 4000 pos_ex) = StringV ''7.00''
   \<and> total (newOrder 4000 pos_ex) \<noteq> NumberV 7"
proof -
  have 1: "isComplimentaryMode pos_ex = False"
    by (simp add: pos_ex_def)
  have 2: "pos_orders_slot (confirmOrder 4000 4001 pos_ex) = [newOrder 4000 pos_ex]"
    by (simp add: confirmOrder_def pos_ex_def)
  have 3: "calculateTotal (items (newOrder 4000 pos_ex)) = 7"
    by (simp add: newOrder_pos_ex(4) calculateTotal_sum_list item_latte_def)
  from cart_pos_ex 1 2 3 newOrder_pos_ex(1) show ?thesis
    by simp
qed

section \<open>Daily series\<close>

lemma dayOf_mono: "a \<le> b \<Longrightarrow> dayOf a \<le> dayOf b"
  by (simp add: dayOf_def msPerDay_def zdiv_mono1)

lemma filteredOrders_days:
  "ord \<in> set (filteredOrders start end os) \<Longrightarrow>
   dayOf (timestamp ord) \<in> {dayOf start..dayOf end}"
  by (simp add: filteredOrders_def dayOf_mono)

lemma keys_add_to_day: "map fst (map (add_to_day ord) data) = map fst data"
  by (simp add: add_to_day_def)

lemma add_order_present:
  "dayOf (timestamp ord) \<in> set (map fst data) \<Longrightarrow> add_order data ord = map (add_to_day ord) data"
  by (simp add: add_order_def Let_def map_of_eq_None_iff)

lemma day_values_Cons:
  "day_values (ord # fos) d =
     (if dayOf (timestamp ord) = d
      then (if isComplimentary ord then NumberV 0 else total ord) # day_values fos d
      else day_values fos d)"
  by (simp add: day_values_def)

lemma day_orders_Cons:
  "day_orders (ord # fos) d = (if dayOf (timestamp ord) = d then 1 else 0) + day_orders fos d"
  by (simp add: day_orders_def)

lemma add_to_day_accumulate:
  "(fst (add_to_day ord kv),
    (snd (add_to_day ord kv))
      \<lparr>sales := foldl js_plus (sales (snd (add_to_day ord kv)))
                  (day_values fos (fst (add_to_day ord kv))),
       orders_cnt := orders_cnt (snd (add_to_day ord kv)) + day_orders fos (fst (add_to_day ord kv))\<rparr>)
   = (fst kv,
      (snd kv)\<lparr>sales := foldl js_plus (sales (snd kv)) (day_values (ord # fos) (fst kv)),
               orders_cnt := orders_cnt (snd kv) + day_orders (ord # fos) (fst kv)\<rparr>)"
  by (simp add: add_to_day_def day_values_Cons day_orders_Cons)

lemma foldl_add_order:
  "\<forall>ord \<in> set fos. dayOf (timestamp ord) \<in> set (map fst data) \<Longrightarrow>
   foldl add_order data fos =
     map (\<lambda>kv. (fst kv,
                 (snd kv)\<lparr>sales := foldl js_plus (sales (snd kv)) (day_values fos (fst kv)),
                          orders_cnt := orders_cnt (snd kv) + day_orders fos (fst kv)\<rparr>))
       data"
proof (induction fos arbitrary: data)
  case Nil
  show ?case
    by (simp add: day_values_def day_orders_def)
next
  case (Cons ord fos)
  have step: "add_order data ord = map (add_to_day ord) data"
    using Cons.prems by (simp add: add_order_present)
  have keys: "\<forall>x \<in> set fos. dayOf (timestamp x) \<in> set (map fst (map (add_to_day ord) data))"
    using Cons.prems by (simp only: keys_add_to_day) simp
  show ?case
    by (simp only: foldl_Cons step Cons.IH [OF keys] map_map o_def add_to_day_accumulate)
qed

lemma forEach_daily_foldl:
  "\<forall>ord \<in> set fos. dayOf (timestamp ord) \<in> set (map fst data) \<Longrightarrow>
   forEach_daily fos data = Inr (foldl add_order data fos)"
proof (induction fos arbitrary: data)
  case Nil
  show ?case by simp
next
  case (Cons ord fos)
  have present: "map_of data (dayOf (timestamp ord)) \<noteq> None"
    using Cons.prems by (simp add: map_of_eq_None_iff)
  have step: "add_order data ord = map (add_to_day ord) data"
    using Cons.prems by (simp add: add_order_present)
  have keys: "\<forall>x \<in> set fos. dayOf (timestamp x) \<in> set (map fst (map (add_to_day ord) data))"
    using Cons.prems by (simp only: keys_add_to_day) simp
  show ?case
    using present by (simp add: step Cons.IH [OF keys])
qed

lemma aggregated_days:
  assumes "start \<le> end"
  shows "foldl add_order
           (map (\<lambda>day. (day, \<lparr>sales = NumberV 0, orders_cnt = 0\<rparr>)) [dayOf start..dayOf end])
           (filteredOrders start end os)
         = map (\<lambda>d. (d, \<lparr>sales = day_sales (filteredOrders start end os) d,
                         orders_cnt = day_orders (filteredOrders start end os) d\<rparr>))
             [dayOf start..dayOf end]"
proof -
  have keys: "\<forall>ord \<in> set (filteredOrders start end os).
      dayOf (timestamp ord) \<in> set (map fst (map (\<lambda>day. (day, \<lparr>sales = NumberV 0, orders_cnt = 0\<rparr>))
         [dayOf start..dayOf end]))"
    using filteredOrders_days by (simp add: o_def)
  show ?thesis
    by (simp add: foldl_add_order [OF keys] o_def day_sales_def)
qed

lemma sorted_daily:
  "sort_key date (map (\<lambda>d. \<lparr>sales = f d, orders_cnt = g d, date = d\<rparr>) [a..b])
     = map (\<lambda>d. \<lparr>sales = f d, orders_cnt = g d, date = d\<rparr>) [a..b]"
  by (rule sort_key_id_if_sorted) (simp add: o_def)

lemma salesData_eq:
  assumes "start \<le> end"
  shows "salesData start end os =
     Inr (map (\<lambda>d. \<lparr>sales = day_sales (filteredOrders start end os) d,
                    orders_cnt = day_orders (filteredOrders start end os) d, date = d\<rparr>)
            [dayOf start..dayOf end])"
  using assms
  by (simp add: salesData_def eachDayOfInterval_def Let_def aggregated_days o_def sorted_daily)

lemma dailySalesAndOrders_eq:
  assumes "start \<le> end"
  shows "dailySalesAndOrders start end os = salesData start end os"
proof -
  have keys: "\<forall>ord \<in> set (filteredOrders start end os).
      dayOf (timestamp ord) \<in> set (map fst (map (\<lambda>day. (day, \<lparr>sales = NumberV 0, orders_cnt = 0\<rparr>))
         [dayOf start..dayOf end]))"
    using filteredOrders_days by (simp add: o_def)
  show ?thesis
    using assms
    by (simp add: dailySalesAndOrders_def salesData_def eachDayOfInterval_def Let_def
        forEach_daily_foldl [OF keys])
qed

lemma day_without_orders:
  "\<forall>ord \<in> set fos. dayOf (timestamp ord) \<noteq> d \<Longrightarrow>
   day_sales fos d = NumberV 0 \<and> day_orders fos d = 0"
  by (induction fos) (simp_all add: day_sales_def day_values_def day_orders_def)

lemma aligned_range_covers_day:
  assumes "start mod msPerDay = 0" and "end mod msPerDay = msPerDay - 1"
    and "dayOf start \<le> dayOf t" and "dayOf t \<le> dayOf end"
  shows "start \<le> t \<and> t \<le> end"
proof -
  have m: "(0::int) < msPerDay"
    by (simp add: msPerDay_def)
  have s: "start = msPerDay * dayOf start"
    using assms(1) unfolding dayOf_def by (metis add.right_neutral mult_div_mod_eq)
  have e: "end = msPerDay * dayOf end + (msPerDay - 1)"
    using assms(2) unfolding dayOf_def by (metis mult_div_mod_eq)
  have t1: "msPerDay * dayOf t \<le> t"
    unfolding dayOf_def using m by (metis mult_div_mod_eq pos_mod_sign add_increasing2 order_refl)
  have t2: "t < msPerDay * dayOf t + msPerDay"
    unfolding dayOf_def using m by (metis mult_div_mod_eq pos_mod_bound add_strict_left_mono)
  have "msPerDay * dayOf start \<le> msPerDay * dayOf t"
    using assms(3) m by simp
  with s t1 have lo: "start \<le> t"
    by linarith
  have "msPerDay * dayOf t \<le> msPerDay * dayOf end"
    using assms(4) m by simp
  with e t2 have hi: "t \<le> end"
    by linarith
  from lo hi show ?thesis ..
qed

lemma aligned_filter_day:
  assumes "start mod msPerDay = 0" and "end mod msPerDay = msPerDay - 1"
    and "d \<in> {dayOf start..dayOf end}"
  shows "filter (\<lambda>ord. dayOf (timestamp ord) = d) (filteredOrders start end os)
       = filter (\<lambda>ord. dayOf (timestamp ord) = d) os"
proof -
  have "dayOf (timestamp ord) = d \<Longrightarrow> start \<le> timestamp ord \<and> timestamp ord \<le> end"
    for ord :: order
    using aligned_range_covers_day [OF assms(1) assms(2), of "timestamp ord"] assms(3) by simp
  then show ?thesis
    unfolding filteredOrders_def filter_filter by (intro filter_cong refl) blast
qed

lemma aligned_day_totals:
  assumes "start mod msPerDay = 0" and "end mod msPerDay = msPerDay - 1"
    and "d \<in> {dayOf start..dayOf end}"
  shows "day_sales (filteredOrders start end os) d = day_sales os d"
    and "day_orders (filteredOrders start end os) d = day_orders os d"
  unfolding day_sales_def day_values_def day_orders_def
  by (simp_all only: aligned_filter_day [OF assms])

text \<open>
  When every non-complimentary order carries a number as its total, the sales of a day
  are the number that is the sum of those totals.
\<close>

lemma foldl_js_plus_numbers:
  "foldl js_plus (NumberV a) (map NumberV rs) = NumberV (a + sum_list rs)"
  by (induction rs arbitrary: a) (simp_all add: add.assoc)

lemma day_values_numbers:
  assumes "\<forall>ord \<in> set fos. \<not> isComplimentary ord \<longrightarrow> total ord = NumberV (amt ord)"
  shows "day_values fos d =
     map NumberV (map (\<lambda>ord. if isComplimentary ord then 0 else amt ord)
                    (filter (\<lambda>ord. dayOf (timestamp ord) = d) fos))"
  using assms unfolding day_values_def by (induction fos) simp_all

lemma sum_paid_amounts:
  "sum_list (map (\<lambda>ord. if isComplimentary ord then 0 else amt ord) xs) =
     (\<Sum>ord\<leftarrow>filter (\<lambda>ord. \<not> isComplimentary ord) xs. (amt ord :: rat))"
  by (induction xs) simp_all

lemma day_sales_numbers:
  assumes "\<forall>ord \<in> set fos. \<not> isComplimentary ord \<longrightarrow> total ord = NumberV (amt ord)"
  shows "day_sales fos d =
     NumberV (\<Sum>ord\<leftarrow>filter (\<lambda>ord. \<not> isComplimentary ord)
                         (filter (\<lambda>ord. dayOf (timestamp ord) = d) fos). amt ord)"
proof -
  let ?xs = "filter (\<lambda>ord. dayOf (timestamp ord) = d) fos"
  have "day_sales fos d =
      foldl js_plus (NumberV 0)
        (map NumberV (map (\<lambda>ord. if isComplimentary ord then 0 else amt ord) ?xs))"
    by (simp only: day_sales_def day_values_numbers [OF assms])
  also have "\<dots> = NumberV (0 + sum_list (map (\<lambda>ord. if isComplimentary ord then 0 else amt ord) ?xs))"
    by (rule foldl_js_plus_numbers)
  also have "sum_list (map (\<lambda>ord. if isComplimentary ord then 0 else amt ord) ?xs) =
      (\<Sum>ord\<leftarrow>filter (\<lambda>ord. \<not> isComplimentary ord) ?xs. amt ord)"
    by (rule sum_paid_amounts)
  finally show ?thesis
    by simp
qed

text \<open>
  The shape of the daily series, for a range with \<open>start\<close> not after \<open>end\<close>: both
  aggregations return one entry for each calendar day from the day of \<open>start\<close> to the day
  of \<open>end\<close>, in ascending order of date, that is \<open>end day - start day + 1\<close> entries; the
  \<open>orders\<close> of a day is the number of the filtered orders of that day, and a day without
  orders has sales 0 and orders 0.
\<close>

lemma salesData_one_entry_per_day:
  assumes "start \<le> end"
  shows "salesData start end os =
       Inr (map (\<lambda>d. \<lparr>sales = day_sales (filteredOrders start end os) d,
                      orders_cnt = day_orders (filteredOrders start end os) d, date = d\<rparr>)
              [dayOf start..dayOf end])"
    and "dailySalesAndOrders start end os = salesData start end os"
    and "length [dayOf start..dayOf end] = nat (dayOf end - dayOf start + 1)"
    and "sorted [dayOf start..dayOf end]" and "distinct [dayOf start..dayOf end]"
  using assms by (simp_all add: salesData_eq dailySalesAndOrders_eq)

lemma salesData_report_orders:
  "salesData 0 172799999 report_orders =
     Inr [\<lparr>sales = NumberV 10, orders_cnt = 2, date = 0\<rparr>,
          \<lparr>sales = NumberV 20, orders_cnt = 1, date = 1\<rparr>]"
proof -
  have le: "(0::int) \<le> 172799999"
    by simp
  have days: "[dayOf 0..dayOf 172799999] = [0, 1]"
    by (simp add: dayOf_def msPerDay_def upto_rec1)
  have fos: "filteredOrders 0 172799999 report_orders = report_orders"
    by (simp add: filteredOrders_def report_orders_def paid_10_def free_0_def paid_20_def)
  have vals: "day_sales report_orders 0 = NumberV 10" "day_orders report_orders 0 = 2"
    "day_sales report_orders 1 = NumberV 20" "day_orders report_orders 1 = 1"
    by (simp_all add: day_sales_def day_values_def day_orders_def report_orders_def paid_10_def
        free_0_def paid_20_def dayOf_def msPerDay_def)
  show ?thesis
    by (simp add: salesData_eq [OF le] days fos vals)
qed

lemma one_day: "[dayOf 0..dayOf 86399999] = [0]"
  by (simp add: dayOf_def msPerDay_def upto_rec1)

lemma filteredOrders_pos_two_orders: "filteredOrders 0 86399999 pos_two_orders = pos_two_orders"
  by (simp add: filteredOrders_def pos_two_orders_eq newOrder_pos_ex newOrder_pos_ex2)

lemma day_sales_pos_two_orders: "day_sales pos_two_orders 0 = StringV ''02.007.00''"
  by (simp add: day_sales_def day_values_def pos_two_orders_eq newOrder_pos_ex newOrder_pos_ex2
      dayOf_def msPerDay_def number_to_string_0)

text \<open>
  C6: the \<open>sales\<close> of a day must be the sum of \<open>total\<close> over the non-complimentary orders
  of that day.  The code does not compute that sum for orders placed on the
  point-of-sale page in paid mode: their totals are the strings \<open>2.00\<close> and \<open>7.00\<close>, the
  loop's \<open>+=\<close> concatenates them to the number 0, and the one-day series holds the string
  \<open>02.007.00\<close> as the sales of the day where the sum is 9.  The entry is there and its
  \<open>orders\<close> is 2.
\<close>

theorem salesData_concatenates_string_totals:
  "map total pos_two_orders = [StringV ''2.00'', StringV ''7.00'']
   \<and> map isComplimentary pos_two_orders = [False, False]
   \<and> map (\<lambda>ord. calculateTotal (items ord)) pos_two_orders = [2, 7]
   \<and> salesData 0 86399999 pos_two_orders =
       Inr [\<lparr>sales = StringV ''02.007.00'', orders_cnt = 2, date = 0\<rparr>]
   \<and> dailySalesAndOrders 0 86399999 pos_two_orders =
       Inr [\<lparr>sales = StringV ''02.007.00'', orders_cnt = 2, date = 0\<rparr>]"
proof -
  have le: "(0::int) \<le> 86399999"
    by simp
  have 1: "map total pos_two_orders = [StringV ''2.00'', StringV ''7.00'']"
    "map isComplimentary pos_two_orders = [False, False]"
    by (simp_all add: pos_two_orders_eq newOrder_pos_ex newOrder_pos_ex2)
  have 2: "map (\<lambda>ord. calculateTotal (items ord)) pos_two_orders = [2, 7]"
    by (simp add: pos_two_orders_eq newOrder_pos_ex newOrder_pos_ex2 calculateTotal_sum_list
        item_latte_def item_croissant_def)
  have n: "day_orders pos_two_orders 0 = 2"
    by (simp add: day_orders_def pos_two_orders_eq newOrder_pos_ex newOrder_pos_ex2
        dayOf_def msPerDay_def)
  have 3: "salesData 0 86399999 pos_two_orders =
       Inr [\<lparr>sales = StringV ''02.007.00'', orders_cnt = 2, date = 0\<rparr>]"
    by (simp add: salesData_eq [OF le] one_day filteredOrders_pos_two_orders
        day_sales_pos_two_orders n)
  have 4: "dailySalesAndOrders 0 86399999 pos_two_orders = salesData 0 86399999 pos_two_orders"
    using le by (rule dailySalesAndOrders_eq)
  from 1 2 3 4 show ?thesis by simp
qed

section \<open>Sales metrics\<close>

lemma totalSales_values:
  "totalSales fos =
     foldl js_plus (NumberV 0)
       (map (\<lambda>ord. if isComplimentary ord then NumberV 0 else total ord) fos)"
  by (simp add: totalSales_def foldl_map)

lemma averageOrderValue_guard:
  "averageOrderValue fos =
     (if length (filter (\<lambda>ord. \<not> isComplimentary ord) fos) = 0 then Num 0
      else js_divide (to_number (totalSales fos))
             (Num (of_nat (length (filter (\<lambda>ord. \<not> isComplimentary ord) fos)))))"
  by (simp add: averageOrderValue_def Let_def)

lemma averageOrderValue_all_complimentary:
  assumes "\<forall>ord \<in> set fos. isComplimentary ord"
  shows "averageOrderValue fos = Num 0"
proof -
  from assms have "filter (\<lambda>ord. \<not> isComplimentary ord) fos = []"
    by (simp add: filter_empty_conv)
  then show ?thesis
    by (simp add: averageOrderValue_def)
qed

text \<open>
  When every non-complimentary order carries a number as its total, \<open>totalSales\<close> is the
  number that is the sum of those totals, and \<open>averageOrderValue\<close> that sum divided by
  their count.
\<close>

lemma totalSales_numbers:
  assumes "\<forall>ord \<in> set fos. \<not> isComplimentary ord \<longrightarrow> total ord = NumberV (amt ord)"
  shows "totalSales fos = NumberV (\<Sum>ord\<leftarrow>filter (\<lambda>ord. \<not> isComplimentary ord) fos. amt ord)"
proof -
  have "map (\<lambda>ord. if isComplimentary ord then NumberV 0 else total ord) fos =
      map NumberV (map (\<lambda>ord. if isComplimentary ord then 0 else amt ord) fos)"
    using assms by (induction fos) simp_all
  then have "totalSales fos =
      foldl js_plus (NumberV 0)
        (map NumberV (map (\<lambda>ord. if isComplimentary ord then 0 else amt ord) fos))"
    by (simp only: totalSales_values)
  also have "\<dots> = NumberV (0 + sum_list (map (\<lambda>ord. if isComplimentary ord then 0 else amt ord) fos))"
    by (rule foldl_js_plus_numbers)
  also have "sum_list (map (\<lambda>ord. if isComplimentary ord then 0 else amt ord) fos) =
      (\<Sum>ord\<leftarrow>filter (\<lambda>ord. \<not> isComplimentary ord) fos. amt ord)"
    by (rule sum_paid_amounts)
  finally show ?thesis
    by simp
qed

lemma averageOrderValue_numbers:
  assumes "\<forall>ord \<in> set fos. \<not> isComplimentary ord \<longrightarrow> total ord = NumberV (amt ord)"
    and "filter (\<lambda>ord. \<not> isComplimentary ord) fos \<noteq> []"
  shows "averageOrderValue fos =
     Num ((\<Sum>ord\<leftarrow>filter (\<lambda>ord. \<not> isComplimentary ord) fos. amt ord)
          / of_nat (length (filter (\<lambda>ord. \<not> isComplimentary ord) fos)))"
  using assms(2) by (simp add: averageOrderValue_guard totalSales_numbers [OF assms(1)])

lemma averageOrderValue_report_orders:
  "totalSales report_orders = NumberV 30" "averageOrderValue report_orders = Num 15"
  by (simp_all add: averageOrderValue_def totalSales_def report_orders_def paid_10_def free_0_def
      paid_20_def)

lemma string_to_number_concatenated: "string_to_number ''02.007.00'' = NaN"
  by code_simp

lemma totalSales_pos_two_orders: "totalSales pos_two_orders = StringV ''02.007.00''"
  by (simp add: totalSales_def pos_two_orders_eq newOrder_pos_ex newOrder_pos_ex2
      number_to_string_0)

text \<open>
  C7: \<open>averageOrderValue\<close> must be the total sales divided by the number of
  non-complimentary orders.  The code does not give that value for orders placed on the
  point-of-sale page in paid mode: for the two paid orders with the sums 2 and 7,
  \<open>totalSales\<close> is the string \<open>02.007.00\<close>, not the number 9, and \<open>averageOrderValue\<close>, that
  string divided by 2, is \<open>NaN\<close>, not 4.5.
\<close>

theorem averageOrderValue_NaN_on_string_totals:
  "map total pos_two_orders = [StringV ''2.00'', StringV ''7.00'']
   \<and> map isComplimentary pos_two_orders = [False, False]
   \<and> map (\<lambda>ord. calculateTotal (items ord)) pos_two_orders = [2, 7]
   \<and> filteredOrders 0 86399999 pos_two_orders = pos_two_orders
   \<and> totalSales pos_two_orders = StringV ''02.007.00''
   \<and> averageOrderValue pos_two_orders = NaN"
proof -
  have 1: "map total pos_two_orders = [StringV ''2.00'', StringV ''7.00'']"
    "map isComplimentary pos_two_orders = [False, False]"
    by (simp_all add: pos_two_orders_eq newOrder_pos_ex newOrder_pos_ex2)
  have 2: "map (\<lambda>ord. calculateTotal (items ord)) pos_two_orders = [2, 7]"
    by (simp add: pos_two_orders_eq newOrder_pos_ex newOrder_pos_ex2 calculateTotal_sum_list
        item_latte_def item_croissant_def)
  have p: "filter (\<lambda>ord. \<not> isComplimentary ord) pos_two_orders = pos_two_orders"
    by (simp add: pos_two_orders_eq newOrder_pos_ex newOrder_pos_ex2)
  have l: "length pos_two_orders = 2"
    by (simp add: pos_two_orders_eq)
  have 3: "averageOrderValue pos_two_orders = NaN"
    by (simp add: averageOrderValue_guard p l totalSales_pos_two_orders
        string_to_number_concatenated)
  from 1 2 3 filteredOrders_pos_two_orders totalSales_pos_two_orders show ?thesis
    by simp
qed

section \<open>Growth\<close>

text \<open>
  The first point of a series is compared against itself, so its growth is 0 when its
  value is a non-zero number, and \<open>NaN\<close> when its value is the number 0.
\<close>

lemma growth_first:
  "vals ! 0 = NumberV r \<Longrightarrow> growth vals 0 = (if r = 0 then NaN else Num 0)"
  by (simp add: growth_def previous_value_def)

lemma enhancedSalesTrend_first_growth:
  assumes "baseData \<noteq> []" and "sales (baseData ! 0) = NumberV r"
  shows "salesGrowth (enhancedSalesTrend baseData ! 0) = (if r = 0 then NaN else Num 0)"
proof -
  from assms(1) have l: "0 < length baseData"
    by simp
  have "salesGrowth (enhancedSalesTrend baseData ! 0) = growth (map sales baseData) 0"
    using l by (simp add: enhancedSalesTrend_def Let_def)
  also have "\<dots> = (if r = 0 then NaN else Num 0)"
    using l assms(2) by (simp add: growth_first)
  finally show ?thesis .
qed

text \<open>
  \<open>salesGrowthRate\<close> guards its denominator: when the sales of the earlier window are the
  number 0 the result is 100.
\<close>

lemma salesGrowthRate_guard:
  assumes "foldl (\<lambda>sum ord. js_plus sum (if isComplimentary ord then NumberV 0 else total ord))
             (NumberV 0)
             (filter (\<lambda>ord. start - (end - start) \<le> timestamp ord \<and> timestamp ord < start) os)
           = NumberV 0"
  shows "salesGrowthRate start end os = Num 100"
  using assms by (simp add: salesGrowthRate_def Let_def)

text \<open>
  C8: the day-over-day growth at series index 0 is 0.  The code gives \<open>NaN\<close> when the
  first value of the series is 0: a one-day range without orders has the series
  \<open>[{sales: 0, orders: 0}]\<close>, the first point is compared against itself, and
  \<open>(0 - 0) / 0 * 100\<close> is \<open>NaN\<close> for sales and for orders.
\<close>

theorem enhancedSalesTrend_first_growth_zero_sales:
  "salesData 0 86399999 [] = Inr [\<lparr>sales = NumberV 0, orders_cnt = 0, date = 0\<rparr>]
   \<and> map salesGrowth (enhancedSalesTrend [\<lparr>sales = NumberV 0, orders_cnt = 0, date = 0\<rparr>]) = [NaN]
   \<and> map ordersGrowth (enhancedSalesTrend [\<lparr>sales = NumberV 0, orders_cnt = 0, date = 0\<rparr>]) = [NaN]
   \<and> map trend (enhancedSalesTrend [\<lparr>sales = NumberV 0, orders_cnt = 0, date = 0\<rparr>]) = [''stable'']"
proof -
  have 1: "salesData 0 86399999 [] = Inr [\<lparr>sales = NumberV 0, orders_cnt = 0, date = 0\<rparr>]"
    by (simp add: salesData_def eachDayOfInterval_def one_day filteredOrders_def Let_def)
  have g: "growth [NumberV 0] 0 = NaN"
    by (simp add: growth_first)
  have 2: "map salesGrowth (enhancedSalesTrend [\<lparr>sales = NumberV 0, orders_cnt = 0, date = 0\<rparr>]) = [NaN]"
    by (simp add: enhancedSalesTrend_def Let_def g)
  have 3: "map ordersGrowth (enhancedSalesTrend [\<lparr>sales = NumberV 0, orders_cnt = 0, date = 0\<rparr>]) = [NaN]"
    by (simp add: enhancedSalesTrend_def Let_def g)
  have 4: "map trend (enhancedSalesTrend [\<lparr>sales = NumberV 0, orders_cnt = 0, date = 0\<rparr>]) = [''stable'']"
    by (simp add: enhancedSalesTrend_def Let_def g)
  from 1 2 3 4 show ?thesis by simp
qed

section \<open>Importing\<close>

lemma importData_unparsable: "importData None ls = (ls, Error)"
  by (simp add: importData_def)

lemma importData_null: "importData (Some JNull) ls = (ls, Error)"
  by (simp add: importData_def)

lemma get_property_not_null: "data \<noteq> JNull \<Longrightarrow> \<exists>v. get_property data key = Inr v"
  by (cases data) simp_all

lemma importData_accepts:
  assumes "data \<noteq> JNull"
  shows "snd (importData (Some data) ls) = Success"
    and "\<exists>v. get_property data ''orders'' = Inr v
           \<and> fst (importData (Some data) ls) ''orders'' = Some (stringify v)"
proof -
  from assms obtain v1 v2 v3 where
    v: "get_property data ''orders'' = Inr v1" "get_property data ''preferences'' = Inr v2"
       "get_property data ''inventory'' = Inr v3"
    using get_property_not_null by blast
  show "snd (importData (Some data) ls) = Success"
    by (simp add: importData_def v Let_def)
  show "\<exists>v. get_property data ''orders'' = Inr v
           \<and> fst (importData (Some data) ls) ''orders'' = Some (stringify v)"
    by (simp add: importData_def v Let_def)
qed

text \<open>
  C9: a document missing the \<open>orders\<close> key must fail to import and leave the stored
  \<open>orders\<close> unchanged.  The code does not: for the document
  \<open>{"preferences": {}, "inventory": []}\<close> it reports success, and the \<open>orders\<close> slot, which
  held one order, now holds the text \<open>undefined\<close>, so that the next \<open>loadOrders\<close> fails;
  the other two slots are overwritten as well.
\<close>

theorem importData_missing_orders_key:
  "get_property document_without_orders ''orders'' = Inr Undefined
   \<and> snd (importData (Some document_without_orders) storage_with_order) = Success
   \<and> fst (importData (Some document_without_orders) storage_with_order) ''orders''
       = Some Undefined_text
   \<and> storage_with_order ''orders''
       = Some (Stringified (JArr [JObj [(''id'', JNum 1), (''status'', JStr ''Pending'')]]))
   \<and> fst (importData (Some document_without_orders) storage_with_order) ''systemPreferences''
       = Some (Stringified (JObj []))
   \<and> fst (importData (Some document_without_orders) storage_with_order) ''inventory''
       = Some (Stringified (JArr []))
   \<and> storage_with_order ''inventory'' = None
   \<and> loadOrders_fails (fst (importData (Some document_without_orders) storage_with_order))"
  by (simp add: importData_def document_without_orders_def storage_with_order_def Let_def
      loadOrders_fails_def)

section \<open>Resetting ids\<close>

lemma length_reset_ids: "length (reset_ids os) = length os"
  by (simp add: reset_ids_def)

lemma nth_reset_ids:
  "i < length os \<Longrightarrow> reset_ids os ! i = (os ! i)\<lparr>id_num := int i + 1\<rparr>"
  by (simp add: reset_ids_def nth_enumerate_eq)

lemma ids_reset_ids: "map id_num (reset_ids os) = map int [1..<Suc (length os)]"
proof (rule nth_equalityI)
  show "length (map id_num (reset_ids os)) = length (map int [1..<Suc (length os)])"
    by (simp add: length_reset_ids del: upt_Suc)
next
  fix i
  assume "i < length (map id_num (reset_ids os))"
  then have i: "i < length os"
    by (simp add: length_reset_ids)
  then have "map id_num (reset_ids os) ! i = int i + 1"
    by (simp add: length_reset_ids nth_reset_ids)
  moreover have "map int [1..<Suc (length os)] ! i = int i + 1"
    using i by (simp del: upt_Suc)
  ultimately show "map id_num (reset_ids os) ! i = map int [1..<Suc (length os)] ! i"
    by simp
qed

lemma confirmRestartOrderId_orders: "orders (confirmRestartOrderId st) = reset_ids (orders st)"
  by (simp add: confirmRestartOrderId_def Let_def)

lemma confirmRestartOrderId_allOrders:
  "allOrders (confirmRestartOrderId st) = reset_ids (allOrders st)"
  by (simp add: confirmRestartOrderId_def Let_def)

lemma confirmRestartOrderId_orders_slot:
  "orders_slot (confirmRestartOrderId st) = reset_ids (orders st)"
  by (simp add: confirmRestartOrderId_def Let_def)

lemma display_page_AB: "filterAndSortOrders page_AB = [order_B, order_A]"
  by (simp add: filterAndSortOrders_def page_AB_def order_A_def order_B_def)

lemma display_page_AB_reset:
  "filterAndSortOrders (confirmRestartOrderId page_AB) =
     [order_B\<lparr>id_num := 2\<rparr>, order_A\<lparr>id_num := 1\<rparr>]"
  by (simp add: filterAndSortOrders_def confirmRestartOrderId_def reset_ids_def Let_def
      enumerate_eq_zip page_AB_def order_A_def order_B_def)

text \<open>
  C10 (as stated, refuted): the page sorts by timestamp, ascending, so it
  displays the order of Bob K. (id 3) first and the order of Ada L. (id 7) second.  After
  the reset the first displayed order has id 2 and the second id 1: the ids follow the
  positions in the active list as held in state, not the display order.
\<close>

theorem confirmRestartOrderId_display_order_counterexample:
  "map customerName (filterAndSortOrders page_AB) = [''Bob K.'', ''Ada L.'']
   \<and> map id_num (filterAndSortOrders page_AB) = [3, 7]
   \<and> map customerName (filterAndSortOrders (confirmRestartOrderId page_AB)) = [''Bob K.'', ''Ada L.'']
   \<and> map id_num (filterAndSortOrders (confirmRestartOrderId page_AB)) = [2, 1]"
  by (simp add: display_page_AB display_page_AB_reset order_A_def order_B_def)

text \<open>
  C10 (amended): the id reset gives \<open>id = index + 1\<close> to every order of the active list
  and of the historical list, the index being the position in the list as held in state
  (whatever the filter and sort of the display), and changes nothing else of an order; the
  reset active list is what is stored.  An active list held as \<open>[{id:7},{id:3}]\<close> becomes
  \<open>[{id:1},{id:2}]\<close>.
\<close>

theorem confirmRestartOrderId_ids_by_stored_position:
  "map id_num (orders (confirmRestartOrderId st)) = map int [1..<Suc (length (orders st))]
   \<and> map id_num (allOrders (confirmRestartOrderId st)) = map int [1..<Suc (length (allOrders st))]
   \<and> (\<forall>i < length (orders st).
         orders (confirmRestartOrderId st) ! i = (orders st ! i)\<lparr>id_num := int i + 1\<rparr>)
   \<and> (\<forall>i < length (allOrders st).
         allOrders (confirmRestartOrderId st) ! i = (allOrders st ! i)\<lparr>id_num := int i + 1\<rparr>)
   \<and> orders_slot (confirmRestartOrderId st) = orders (confirmRestartOrderId st)"
  by (simp add: confirmRestartOrderId_orders confirmRestartOrderId_allOrders
      confirmRestartOrderId_orders_slot ids_reset_ids nth_reset_ids)

theorem confirmRestartOrderId_ids_by_stored_position_witness:
  "map id_num (orders page_AB) = [7, 3]
   \<and> map id_num (orders (confirmRestartOrderId page_AB)) = [1, 2]
   \<and> (1::nat) < length (orders page_AB)
   \<and> orders (confirmRestartOrderId page_AB) ! 1 = order_B\<lparr>id_num := 2\<rparr>
   \<and> map id_num (allOrders (confirmRestartOrderId page_AB)) = [1, 2]"
proof -
  have l: "length (orders page_AB) = 2" "length (allOrders page_AB) = 2"
    "orders page_AB ! 1 = order_B" "map id_num (orders page_AB) = [7, 3]"
    by (simp_all add: page_AB_def order_A_def order_B_def)
  have u: "map int [1..<Suc 2] = [1, 2]"
    by (simp add: upt_rec)
  note t = confirmRestartOrderId_ids_by_stored_position [of page_AB]
  from t have 1: "map id_num (orders (confirmRestartOrderId page_AB)) = [1, 2]"
    unfolding l u by blast
  from t have 2: "map id_num (allOrders (confirmRestartOrderId page_AB)) = [1, 2]"
    unfolding l u by blast
  from t l have 3: "orders (confirmRestartOrderId page_AB) ! 1 = order_B\<lparr>id_num := 2\<rparr>"
    by simp
  from l 1 2 3 show ?thesis by simp
qed

end
